theory Spec2Isabelle
  imports Main "HOL-Library.AList" "HOL-Library.List_Lexorder" "HOL-Library.Char_ord"
begin

section \<open>Strings\<close>

text \<open>
  Go strings are byte sequences; they are modelled as \<open>string\<close> (a \<open>char list\<close>).
  The helpers below are the functions of Go's \<open>strings\<close> package that the server calls.
\<close>

definition HasPrefix :: "string \<Rightarrow> string \<Rightarrow> bool" where
  "HasPrefix s p = (length p \<le> length s \<and> take (length p) s = p)"

definition TrimPrefix :: "string \<Rightarrow> string \<Rightarrow> string" where
  "TrimPrefix s p = (if HasPrefix s p then drop (length p) s else s)"

fun Contains :: "string \<Rightarrow> string \<Rightarrow> bool" where
  "Contains [] sub = (sub = [])"
| "Contains (c # cs) sub = (HasPrefix (c # cs) sub \<or> Contains cs sub)"

fun Join :: "string list \<Rightarrow> string \<Rightarrow> string" where
  "Join [] sep = []"
| "Join [x] sep = x"
| "Join (x # y # ys) sep = x @ sep @ Join (y # ys) sep"

text \<open>The decimal text of an integer, as \<open>%d\<close> prints it.\<close>

fun natDec :: "nat \<Rightarrow> string" where
  "natDec n =
     (if n < 10 then [''0123456789'' ! n]
      else natDec (n div 10) @ [''0123456789'' ! (n mod 10)])"

declare natDec.simps [simp del]

definition Itoa :: "int \<Rightarrow> string" where
  "Itoa i = (if i < 0 then CHR ''-'' # natDec (nat (- i)) else natDec (nat i))"

section \<open>Configuration\<close>

text \<open>
  The fields of \<open>config.StaticConfig\<close> that the server code under study reads or writes.
  \<open>EnabledTools\<close> and \<open>DisabledTools\<close> are Go slices that may be nil, hence options.
\<close>

record GroupVersionKind =
  Group :: string
  Version :: string
  Kind :: string

record StaticConfig =
  LogLevel :: int
  Port :: string
  SSEBaseURL :: string
  KubeConfig :: string
  ListOutput :: string
  ReadOnly :: bool
  DisableDestructive :: bool
  Stateless :: bool
  Toolsets :: "string list"
  EnabledTools :: "string list option"
  DisabledTools :: "string list option"
  RequireOAuth :: bool
  OAuthAudience :: string
  AuthorizationURL :: string
  ServerURL :: string
  CertificateAuthority :: string
  ClusterProviderStrategy :: string
  DeniedResources :: "GroupVersionKind list"
  Prompts :: "string list"

subsection \<open>Provider strategy resolution\<close>

text \<open>
  Modelled from the spec: the constants \<open>api.ClusterProviderKubeConfig\<close>,
  \<open>api.ClusterProviderInCluster\<close> and \<open>api.ClusterProviderDisabled\<close> are declared in
  package \<open>api\<close>; the specification gives the strategy names as
  \<open>kubeconfig\<close>, \<open>in-cluster\<close> and \<open>disabled\<close>.
\<close>

definition ClusterProviderKubeConfig :: string where
  "ClusterProviderKubeConfig = ''kubeconfig''"

definition ClusterProviderInCluster :: string where
  "ClusterProviderInCluster = ''in-cluster''"

definition ClusterProviderDisabled :: string where
  "ClusterProviderDisabled = ''disabled''"

text \<open>
  \<open>resolveStrategy\<close>. The call \<open>InClusterConfig()\<close> reads the process environment; its
  outcome is the parameter \<open>inClusterConfigErr\<close> (\<open>None\<close> when detection succeeded).
\<close>

definition resolveStrategy :: "string option \<Rightarrow> StaticConfig \<Rightarrow> string" where
  "resolveStrategy inClusterConfigErr cfg =
     (if ClusterProviderStrategy cfg \<noteq> [] then ClusterProviderStrategy cfg
      else if KubeConfig cfg \<noteq> [] then ClusterProviderKubeConfig
      else if inClusterConfigErr = None then ClusterProviderInCluster
      else ClusterProviderKubeConfig)"

subsection \<open>Command-line option completion\<close>

record MCPServerOptions =
  o_Version :: bool
  o_LogLevel :: int
  o_Port :: string
  o_SSEBaseUrl :: string
  o_Kubeconfig :: string
  o_Toolsets :: "string list"
  o_ListOutput :: string
  o_ReadOnly :: bool
  o_DisableDestructive :: bool
  o_Stateless :: bool
  o_RequireOAuth :: bool
  o_OAuthAudience :: string
  o_AuthorizationURL :: string
  o_CertificateAuthority :: string
  o_ServerURL :: string
  o_DisableMultiCluster :: bool
  ConfigPath :: string
  ConfigDir :: string
  o_StaticConfig :: StaticConfig

text \<open>
  \<open>loadFlags\<close>: every flag that was set on the command line (\<open>cmd.Flag(name).Changed\<close>,
  the parameter \<open>changed\<close>) overrides the corresponding field of the configuration, in
  the order of the source.
\<close>

definition loadFlags :: "(string \<Rightarrow> bool) \<Rightarrow> MCPServerOptions \<Rightarrow> MCPServerOptions" where
  "loadFlags changed m =
    (let c0 = o_StaticConfig m;
         c1 = (if changed ''log-level'' then c0\<lparr>LogLevel := o_LogLevel m\<rparr> else c0);
         c2 = (if changed ''port'' then c1\<lparr>Port := o_Port m\<rparr> else c1);
         c3 = (if changed ''sse-base-url'' then c2\<lparr>SSEBaseURL := o_SSEBaseUrl m\<rparr> else c2);
         c4 = (if changed ''kubeconfig'' then c3\<lparr>KubeConfig := o_Kubeconfig m\<rparr> else c3);
         c5 = (if changed ''list-output'' then c4\<lparr>ListOutput := o_ListOutput m\<rparr> else c4);
         c6 = (if changed ''read-only'' then c5\<lparr>ReadOnly := o_ReadOnly m\<rparr> else c5);
         c7 = (if changed ''disable-destructive''
               then c6\<lparr>DisableDestructive := o_DisableDestructive m\<rparr> else c6);
         c8 = (if changed ''stateless'' then c7\<lparr>Stateless := o_Stateless m\<rparr> else c7);
         c9 = (if changed ''toolsets'' then c8\<lparr>Toolsets := o_Toolsets m\<rparr> else c8);
         c10 = (if changed ''require-oauth'' then c9\<lparr>RequireOAuth := o_RequireOAuth m\<rparr> else c9);
         c11 = (if changed ''oauth-audience''
                then c10\<lparr>OAuthAudience := o_OAuthAudience m\<rparr> else c10);
         c12 = (if changed ''authorization-url''
                then c11\<lparr>AuthorizationURL := o_AuthorizationURL m\<rparr> else c11);
         c13 = (if changed ''server-url'' then c12\<lparr>ServerURL := o_ServerURL m\<rparr> else c12);
         c14 = (if changed ''certificate-authority''
                then c13\<lparr>CertificateAuthority := o_CertificateAuthority m\<rparr> else c13);
         c15 = (if changed ''disable-multi-cluster'' \<and> o_DisableMultiCluster m
                then c14\<lparr>ClusterProviderStrategy := ClusterProviderDisabled\<rparr> else c14)
     in m\<lparr>o_StaticConfig := c15\<rparr>)"

text \<open>
  \<open>MCPServerOptions.Complete\<close>. \<open>config.Read\<close> reads files, so its result is the
  parameter \<open>readConfig\<close> (\<open>Inl\<close> an error text). \<open>initializeLogging\<close> only configures
  the logger and leaves the options untouched.
\<close>

definition Complete ::
  "(string \<Rightarrow> string \<Rightarrow> string + StaticConfig) \<Rightarrow> (string \<Rightarrow> bool) \<Rightarrow>
   MCPServerOptions \<Rightarrow> string + MCPServerOptions" where
  "Complete readConfig changed m =
    (case (if ConfigPath m \<noteq> [] \<or> ConfigDir m \<noteq> []
           then (case readConfig (ConfigPath m) (ConfigDir m) of
                   Inl err \<Rightarrow> Inl err
                 | Inr cnf \<Rightarrow> Inr (m\<lparr>o_StaticConfig := cnf\<rparr>))
           else Inr m) of
       Inl err \<Rightarrow> Inl err
     | Inr m1 \<Rightarrow>
         (let m2 = loadFlags changed m1;
              c = o_StaticConfig m2
          in if RequireOAuth c \<and> Port c = []
             then Inr (m2\<lparr>o_StaticConfig := c\<lparr>RequireOAuth := False\<rparr>\<rparr>)
             else Inr m2))"

section \<open>Tool call requests\<close>

text \<open>
  The arguments of a tool call are a Go \<open>map[string]any\<close> decoded from JSON. A value is
  either a string or something else (a number, a boolean, null, an array, an object);
  the type parameter stands for the values that are not strings.
\<close>

datatype 'a any = AnyString string | AnyOther 'a

record 'a ToolCallRequest =
  tcr_Name :: string
  arguments :: "string \<rightharpoonup> 'a any"

definition GetString :: "'a ToolCallRequest \<Rightarrow> string \<Rightarrow> string \<Rightarrow> string" where
  "GetString req key defaultValue =
     (case arguments req key of
        Some (AnyString strValue) \<Rightarrow> strValue
      | Some (AnyOther _) \<Rightarrow> defaultValue
      | None \<Rightarrow> defaultValue)"

section \<open>Token exchange\<close>

subsection \<open>Form values, headers and their encodings\<close>

text \<open>
  \<open>url.Values\<close> and \<open>http.Header\<close> are Go maps from a key to a list of values. They are
  association lists with one entry per key; \<open>Encode\<close> sorts by key, so the order of the
  entries carries no meaning.
\<close>

type_synonym Values = "(string \<times> string list) list"

definition Values_Set :: "Values \<Rightarrow> string \<Rightarrow> string \<Rightarrow> Values" where
  "Values_Set v key x = AList.update key [x] v"

definition Values_Add :: "Values \<Rightarrow> string \<Rightarrow> string \<Rightarrow> Values" where
  "Values_Add v key x =
     AList.update key (case map_of v key of None \<Rightarrow> [x] | Some xs \<Rightarrow> xs @ [x]) v"

definition Values_Get :: "Values \<Rightarrow> string \<Rightarrow> string" where
  "Values_Get v key = (case map_of v key of Some (x # _) \<Rightarrow> x | _ \<Rightarrow> [])"

text \<open>
  \<open>url.QueryEscape\<close>: letters, digits and \<open>-_.~\<close> stand for themselves, a space becomes
  \<open>+\<close>, every other byte becomes \<open>%XX\<close> in upper-case hexadecimal.
\<close>

definition shouldEscape :: "char \<Rightarrow> bool" where
  "shouldEscape c =
     (c \<notin> set ''abcdefghijklmnopqrstuvwxyzABCDEFGHIJKLMNOPQRSTUVWXYZ0123456789-_.~'')"

definition upperhex :: "nat \<Rightarrow> char" where
  "upperhex n = ''0123456789ABCDEF'' ! (n mod 16)"

fun QueryEscape :: "string \<Rightarrow> string" where
  "QueryEscape [] = []"
| "QueryEscape (c # cs) =
     (if c = CHR '' '' then CHR ''+'' # QueryEscape cs
      else if shouldEscape c
           then CHR ''%'' # upperhex (of_char c div 16) # upperhex (of_char c mod 16) #
                QueryEscape cs
      else c # QueryEscape cs)"

text \<open>
  \<open>url.Values.Encode\<close>: the pairs \<open>key=value\<close>, both escaped, sorted by key and joined
  by \<open>&\<close>.
\<close>

definition Encode :: "Values \<Rightarrow> string" where
  "Encode v =
     Join (concat (map (\<lambda>(k, vs). map (\<lambda>x. QueryEscape k @ ''='' @ QueryEscape x) vs)
                       (sort_key fst v))) ''&''"

text \<open>\<open>base64.StdEncoding.EncodeToString\<close>, on the bytes of the string.\<close>

definition b64char :: "nat \<Rightarrow> char" where
  "b64char n =
     ''ABCDEFGHIJKLMNOPQRSTUVWXYZabcdefghijklmnopqrstuvwxyz0123456789+/'' ! (n mod 64)"

fun b64 :: "nat list \<Rightarrow> string" where
  "b64 [] = []"
| "b64 [a] = [b64char (a div 4), b64char (a mod 4 * 16), CHR ''='', CHR ''='']"
| "b64 [a, b] =
     [b64char (a div 4), b64char (a mod 4 * 16 + b div 16), b64char (b mod 16 * 4), CHR ''='']"
| "b64 (a # b # c # rest) =
     [b64char (a div 4), b64char (a mod 4 * 16 + b div 16),
      b64char (b mod 16 * 4 + c div 64), b64char (c mod 64)] @ b64 rest"

definition EncodeToString :: "string \<Rightarrow> string" where
  "EncodeToString s = b64 (map of_char s)"

subsection \<open>Constants of package tokenexchange\<close>

definition GrantTypeTokenExchange :: string where
  "GrantTypeTokenExchange = ''urn:ietf:params:oauth:grant-type:token-exchange''"

definition TokenTypeAccessToken :: string where
  "TokenTypeAccessToken = ''urn:ietf:params:oauth:token-type:access_token''"

definition FormKeyGrantType :: string where "FormKeyGrantType = ''grant_type''"
definition FormKeySubjectToken :: string where "FormKeySubjectToken = ''subject_token''"
definition FormKeySubjectTokenType :: string where
  "FormKeySubjectTokenType = ''subject_token_type''"
definition FormKeySubjectIssuer :: string where "FormKeySubjectIssuer = ''subject_issuer''"
definition FormKeyAudience :: string where "FormKeyAudience = ''audience''"
definition FormKeyClientID :: string where "FormKeyClientID = ''client_id''"
definition FormKeyClientSecret :: string where "FormKeyClientSecret = ''client_secret''"
definition FormKeyScope :: string where "FormKeyScope = ''scope''"
definition FormKeyRequestedTokenType :: string where
  "FormKeyRequestedTokenType = ''requested_token_type''"

definition HeaderContentType :: string where "HeaderContentType = ''Content-Type''"
definition HeaderAuthorization :: string where "HeaderAuthorization = ''Authorization''"
definition ContentTypeXWWWFormUrlEncoded :: string where
  "ContentTypeXWWWFormUrlEncoded = ''application/x-www-form-urlencoded''"

definition AuthStyleParams :: string where "AuthStyleParams = ''params''"
definition AuthStyleHeader :: string where "AuthStyleHeader = ''header''"

definition StrategyKeycloakV1 :: string where "StrategyKeycloakV1 = ''keycloak-v1''"
definition StrategyRFC8693 :: string where "StrategyRFC8693 = ''rfc8693''"

subsection \<open>The HTTP client of a target\<close>

text \<open>
  \<open>time.Duration\<close> counts nanoseconds; \<open>Second\<close> is \<open>time.Second\<close>. Of \<open>tls.Config\<close>
  the model keeps the two fields the code sets; the certificate pool is the PEM text it
  was filled from.
\<close>

definition Second :: int where
  "Second = 1000000000"

record TLSConfig =
  MinVersion :: nat
  RootCAs :: string

record Transport =
  TLSClientConfig :: "TLSConfig option"

record Client =
  Timeout :: int
  Transport :: Transport

record TargetTokenExchangeConfig =
  TokenURL :: string
  ClientID :: string
  ClientSecret :: string
  Audience :: string
  SubjectTokenType :: string
  SubjectIssuer :: string
  Scopes :: "string list"
  CAFile :: string
  AuthStyle :: string
  client :: "Client option"

record Request =
  Method :: string
  URL :: string
  Header :: Values
  Body :: string

record Response =
  StatusCode :: int
  resp_Body :: "string + string"

record tokenExchangeResponse =
  r_AccessToken :: string
  r_TokenType :: string
  r_ExpiresIn :: int
  r_RefreshToken :: string
  r_Scope :: string
  r_IssuedTokenType :: string

record Token =
  AccessToken :: string
  TokenType :: string
  RefreshToken :: string
  Expiry :: "(int \<times> int) option"

text \<open>
  What the exchange code asks of the world outside it: reading a file, parsing PEM
  certificates, the check of the URL made by \<open>http.NewRequestWithContext\<close>
  (\<open>Some\<close> an error text), sending a request with a client, decoding the JSON of a
  response body, and the clock.
\<close>

record World =
  ReadFile :: "string \<Rightarrow> string + string"
  AppendCertsFromPEM :: "string \<Rightarrow> bool"
  NewRequestErr :: "string \<Rightarrow> string option"
  Do :: "Client \<Rightarrow> Request \<Rightarrow> string + Response"
  Unmarshal :: "string \<Rightarrow> string + tokenExchangeResponse"
  Now :: int

definition buildTlsConfigForCaFile :: "World \<Rightarrow> string \<Rightarrow> string + TLSConfig" where
  "buildTlsConfigForCaFile w caFile =
     (case ReadFile w caFile of
        Inl err \<Rightarrow>
          Inl (''failed to read CA file '' @ [CHR 0x27] @ caFile @ [CHR 0x27] @ '': '' @ err)
      | Inr caCert \<Rightarrow>
          if \<not> AppendCertsFromPEM w caCert
          then Inl (''failed to parce CA certificate from '' @ [CHR 0x27] @ caFile @ [CHR 0x27])
          else Inr \<lparr>MinVersion = 771, RootCAs = caCert\<rparr>)"

text \<open>
  \<open>HTTPCLient\<close> caches the client in the configuration: it returns the client together
  with the configuration as it is afterwards.
\<close>

definition HTTPCLient ::
  "World \<Rightarrow> TargetTokenExchangeConfig \<Rightarrow> string + (Client \<times> TargetTokenExchangeConfig)" where
  "HTTPCLient w c =
     (case client c of
        Some cl \<Rightarrow> Inr (cl, c)
      | None \<Rightarrow>
          (case (if CAFile c \<noteq> []
                 then (case buildTlsConfigForCaFile w (CAFile c) of
                         Inl err \<Rightarrow> Inl err
                       | Inr tlsConfig \<Rightarrow> Inr (Some tlsConfig))
                 else Inr None) of
             Inl err \<Rightarrow> Inl err
           | Inr tls \<Rightarrow>
               (let cl = \<lparr>Timeout = 30 * Second, Transport = \<lparr>TLSClientConfig = tls\<rparr>\<rparr>
                in Inr (cl, c\<lparr>client := Some cl\<rparr>))))"

subsection \<open>Client credentials and the request\<close>

definition injectClientAuth ::
  "TargetTokenExchangeConfig \<Rightarrow> Values \<Rightarrow> Values \<Rightarrow> Values \<times> Values" where
  "injectClientAuth cfg data header =
     (if ClientID cfg = [] then (data, header)
      else if AuthStyle cfg = AuthStyleHeader
      then (data, Values_Set header HeaderAuthorization
                    (''Basic '' @ EncodeToString (ClientID cfg @ '':'' @ ClientSecret cfg)))
      else (let data1 = Values_Set data FormKeyClientID (ClientID cfg)
            in if ClientSecret cfg \<noteq> []
               then (Values_Set data1 FormKeyClientSecret (ClientSecret cfg), header)
               else (data1, header)))"

text \<open>
  The request \<open>doTokenExchange\<close> builds: a POST to the token URL whose body is the encoded
  form, with the content type set and then every given header value added.
\<close>

definition newTokenExchangeRequest :: "string \<Rightarrow> Values \<Rightarrow> Values \<Rightarrow> Request" where
  "newTokenExchangeRequest tokenURL data headers =
     \<lparr>Method = ''POST'', URL = tokenURL,
      Header = foldl (\<lambda>h (key, values). foldl (\<lambda>h1 x. Values_Add h1 key x) h values)
                 (Values_Set [] HeaderContentType ContentTypeXWWWFormUrlEncoded) headers,
      Body = Encode data\<rparr>"

text \<open>A \<open>time.Duration\<close> is a 64-bit integer; the product with \<open>time.Second\<close> wraps.\<close>

definition wrap64 :: "int \<Rightarrow> int" where
  "wrap64 x = (x + 2 ^ 63) mod 2 ^ 64 - 2 ^ 63"

text \<open>
  \<open>doTokenExchange\<close> returns the token or the error text, and the requests it handed to
  the HTTP client.
\<close>

definition doTokenExchange ::
  "World \<Rightarrow> Client \<Rightarrow> string \<Rightarrow> Values \<Rightarrow> Values \<Rightarrow> (string + Token) \<times> Request list" where
  "doTokenExchange w httpClient tokenURL data headers =
     (case NewRequestErr w tokenURL of
        Some err \<Rightarrow> (Inl (''failed to create token exchange request: '' @ err), [])
      | None \<Rightarrow>
          (let req = newTokenExchangeRequest tokenURL data headers in
           case Do w httpClient req of
             Inl err \<Rightarrow> (Inl (''token exchange request failed: '' @ err), [req])
           | Inr resp \<Rightarrow>
               (case resp_Body resp of
                  Inl err \<Rightarrow> (Inl (''failed to read token exchange response: '' @ err), [req])
                | Inr body \<Rightarrow>
                    if StatusCode resp \<noteq> 200
                    then (Inl (''token exchange failed with status '' @ Itoa (StatusCode resp)
                                 @ '': '' @ body), [req])
                    else (case Unmarshal w body of
                            Inl err \<Rightarrow>
                              (Inl (''failed to parse token exchange response: '' @ err), [req])
                          | Inr tokenResp \<Rightarrow>
                              (Inr \<lparr>AccessToken = r_AccessToken tokenResp,
                                    TokenType = r_TokenType tokenResp,
                                    RefreshToken = r_RefreshToken tokenResp,
                                    Expiry = (if r_ExpiresIn tokenResp > 0
                                              then Some (Now w, wrap64 (r_ExpiresIn tokenResp * Second))
                                              else None)\<rparr>, [req])))))"

subsection \<open>The two exchangers\<close>

text \<open>
  The form each \<open>Exchange\<close> fills before the client credentials are added (the variable
  \<open>data\<close> of the source).
\<close>

definition rfc8693_data :: "TargetTokenExchangeConfig \<Rightarrow> string \<Rightarrow> Values" where
  "rfc8693_data cfg subjectToken =
     (let d1 = Values_Set [] FormKeyGrantType GrantTypeTokenExchange;
          d2 = Values_Set d1 FormKeySubjectToken subjectToken;
          d3 = Values_Set d2 FormKeySubjectTokenType (SubjectTokenType cfg);
          d4 = Values_Set d3 FormKeyAudience (Audience cfg);
          d5 = Values_Set d4 FormKeyRequestedTokenType TokenTypeAccessToken
      in if length (Scopes cfg) > 0 then Values_Set d5 FormKeyScope (Join (Scopes cfg) '' '')
         else d5)"

definition keycloakV1_data :: "TargetTokenExchangeConfig \<Rightarrow> string \<Rightarrow> Values" where
  "keycloakV1_data cfg subjectToken =
     (let d1 = Values_Set [] FormKeyGrantType GrantTypeTokenExchange;
          d2 = Values_Set d1 FormKeySubjectToken subjectToken;
          d3 = Values_Set d2 FormKeySubjectTokenType (SubjectTokenType cfg);
          d4 = Values_Set d3 FormKeyAudience (Audience cfg);
          d5 = (if SubjectIssuer cfg \<noteq> []
                then Values_Set d4 FormKeySubjectIssuer (SubjectIssuer cfg) else d4)
      in if length (Scopes cfg) > 0 then Values_Set d5 FormKeyScope (Join (Scopes cfg) '' '')
         else d5)"

text \<open>
  \<open>Exchange\<close> of either exchanger, given its form: the result, the configuration afterwards
  (with the cached client) and the requests sent.
\<close>

definition exchangeWith ::
  "World \<Rightarrow> TargetTokenExchangeConfig \<Rightarrow> Values \<Rightarrow>
   (string + Token) \<times> TargetTokenExchangeConfig \<times> Request list" where
  "exchangeWith w cfg data0 =
     (case HTTPCLient w cfg of
        Inl err \<Rightarrow>
          (Inl (''failed to acquire http client to talk to IdP for target: '' @ err), cfg, [])
      | Inr (httpClient, cfg') \<Rightarrow>
          (let (data, headers) = injectClientAuth cfg' data0 [];
               (res, reqs) = doTokenExchange w httpClient (TokenURL cfg') data headers
           in (res, cfg', reqs)))"

definition rfc8693_Exchange ::
  "World \<Rightarrow> TargetTokenExchangeConfig \<Rightarrow> string \<Rightarrow>
   (string + Token) \<times> TargetTokenExchangeConfig \<times> Request list" where
  "rfc8693_Exchange w cfg subjectToken = exchangeWith w cfg (rfc8693_data cfg subjectToken)"

definition keycloakV1_Exchange ::
  "World \<Rightarrow> TargetTokenExchangeConfig \<Rightarrow> string \<Rightarrow>
   (string + Token) \<times> TargetTokenExchangeConfig \<times> Request list" where
  "keycloakV1_Exchange w cfg subjectToken =
     exchangeWith w cfg (keycloakV1_data cfg subjectToken)"

subsection \<open>What the specification says of a token-exchange request\<close>

text \<open>
  The statements of the specification about the request, as predicates on a request \<open>r\<close>
  and the form \<open>data\<close> its body encodes: \<open>bodyHas\<close> says that the body holds the pair
  \<open>key=value\<close> in its escaped form, \<open>formHas\<close> that the form maps the key to exactly that
  value and the body holds the pair. \<open>clientAuthSent\<close> is how the client credentials
  travel.
\<close>

definition bodyHas :: "string \<Rightarrow> string \<Rightarrow> string \<Rightarrow> bool" where
  "bodyHas body key x = Contains body (QueryEscape key @ ''='' @ QueryEscape x)"

definition formHas :: "Request \<Rightarrow> Values \<Rightarrow> string \<Rightarrow> string \<Rightarrow> bool" where
  "formHas r data key x = (map_of data key = Some [x] \<and> bodyHas (Body r) key x)"

definition exchangeFormCommon ::
  "TargetTokenExchangeConfig \<Rightarrow> string \<Rightarrow> Request \<Rightarrow> Values \<Rightarrow> bool" where
  "exchangeFormCommon cfg subjectToken r data =
     (Method r = ''POST'' \<and> URL r = TokenURL cfg \<and>
      map_of (Header r) ''Content-Type'' = Some [''application/x-www-form-urlencoded''] \<and>
      Body r = Encode data \<and>
      formHas r data ''grant_type'' ''urn:ietf:params:oauth:grant-type:token-exchange'' \<and>
      formHas r data ''subject_token'' subjectToken \<and>
      formHas r data ''subject_token_type'' (SubjectTokenType cfg) \<and>
      formHas r data ''audience'' (Audience cfg))"

definition clientAuthSent :: "TargetTokenExchangeConfig \<Rightarrow> Request \<Rightarrow> Values \<Rightarrow> bool" where
  "clientAuthSent cfg r data =
     (if ClientID cfg = []
      then map_of data ''client_id'' = None \<and> map_of data ''client_secret'' = None \<and>
           map_of (Header r) ''Authorization'' = None
      else if AuthStyle cfg = ''header''
      then map_of (Header r) ''Authorization'' =
             Some [''Basic '' @ EncodeToString (ClientID cfg @ '':'' @ ClientSecret cfg)] \<and>
           map_of data ''client_id'' = None \<and> map_of data ''client_secret'' = None
      else formHas r data ''client_id'' (ClientID cfg) \<and>
           (if ClientSecret cfg = [] then map_of data ''client_secret'' = None
            else formHas r data ''client_secret'' (ClientSecret cfg)) \<and>
           map_of (Header r) ''Authorization'' = None)"

section \<open>The authorization middleware of the HTTP server\<close>

text \<open>
  Of an incoming request the middleware reads the path, the escaped path and the
  \<open>Authorization\<close> header, and it may attach the token scopes to the request context
  (\<open>None\<close>: nothing attached).
\<close>

record HttpRequest =
  req_Method :: string
  url_Path :: string
  url_EscapedPath :: string
  req_Header :: Values
  RemoteAddr :: string
  TokenScopes :: "string list option"

record HttpResponse =
  rw_Status :: nat
  rw_Header :: Values
  rw_Body :: string

text \<open>
  The middleware either hands the request to the next handler or answers it itself.
\<close>

datatype Handled = Next HttpRequest | Responded HttpResponse

definition healthEndpoint :: string where
  "healthEndpoint = ''/healthz''"

text \<open>
  Modelled from the spec: the variable \<open>WellKnownEndpoints\<close> is declared in a file of
  package \<open>http\<close> that is not among the sources; the specification lists the well-known
  endpoints as below.
\<close>

definition WellKnownEndpoints :: "string list" where
  "WellKnownEndpoints = [''/.well-known/oauth-authorization-server'',
     ''/.well-known/oauth-protected-resource'', ''/.well-known/openid-configuration'']"

definition quoted :: "string \<Rightarrow> string" where
  "quoted s = CHR 0x22 # s @ [CHR 0x22]"

text \<open>
  \<open>http.Error\<close> sets the content type and the no-sniff header, writes the status and
  the message followed by a newline.
\<close>

definition http_Error :: "Values \<Rightarrow> string \<Rightarrow> nat \<Rightarrow> HttpResponse" where
  "http_Error hdr message code =
     \<lparr>rw_Status = code,
      rw_Header = Values_Set (Values_Set hdr ''Content-Type'' ''text/plain; charset=utf-8'')
                    ''X-Content-Type-Options'' ''nosniff'',
      rw_Body = message @ [CHR 0x0A]\<rparr>"

definition write401 :: "string \<Rightarrow> string \<Rightarrow> string \<Rightarrow> HttpResponse" where
  "write401 wwwAuthenticateHeader errorType message =
     http_Error
       (Values_Set [] ''WWW-Authenticate''
          (wwwAuthenticateHeader @ '', error='' @ quoted errorType))
       message 401"

text \<open>
  The JWT and OIDC libraries: parsing a signed token, reading its claims without
  verification (the registered claims, the scope claim and an error), validating the
  registered claims against the expected audiences (expiry and the other time claims are
  always checked), verifying a token with an OIDC provider for a client id, and
  \<open>strings.Fields\<close>.
\<close>

record ('t, 'c, 'p) JwtLib =
  ParseSigned :: "string \<Rightarrow> string + 't"
  UnsafeClaimsWithoutVerification :: "'t \<Rightarrow> 'c \<times> string \<times> string option"
  ClaimsValidate :: "'c \<Rightarrow> string list \<Rightarrow> string option"
  Verify :: "'p \<Rightarrow> string \<Rightarrow> string \<Rightarrow> string option"
  Fields :: "string \<Rightarrow> string list"

record 'c JWTClaims =
  Claims :: 'c
  jwt_Token :: string
  Scope :: string

definition GetScopes :: "('t, 'c, 'p) JwtLib \<Rightarrow> 'c JWTClaims \<Rightarrow> string list" where
  "GetScopes lib c = (if Scope c = [] then [] else Fields lib (Scope c))"

definition ValidateOffline ::
  "('t, 'c, 'p) JwtLib \<Rightarrow> 'c JWTClaims \<Rightarrow> string \<Rightarrow> string option" where
  "ValidateOffline lib c audience =
     (case ClaimsValidate lib (Claims c) (if audience \<noteq> [] then [audience] else []) of
        Some err \<Rightarrow> Some (''JWT token validation error: '' @ err)
      | None \<Rightarrow> None)"

definition ValidateWithProvider ::
  "('t, 'c, 'p) JwtLib \<Rightarrow> 'c JWTClaims \<Rightarrow> string \<Rightarrow> 'p option \<Rightarrow> string option" where
  "ValidateWithProvider lib c audience provider =
     (case provider of
        None \<Rightarrow> None
      | Some p \<Rightarrow>
          (case Verify lib p audience (jwt_Token c) of
             Some err \<Rightarrow> Some (''OIDC token validation error: '' @ err)
           | None \<Rightarrow> None))"

definition ParseJWTClaims ::
  "('t, 'c, 'p) JwtLib \<Rightarrow> string \<Rightarrow> 'c JWTClaims option \<times> string option" where
  "ParseJWTClaims lib token =
     (case ParseSigned lib token of
        Inl err \<Rightarrow> (None, Some (''failed to parse JWT token: '' @ err))
      | Inr tkn \<Rightarrow>
          (case UnsafeClaimsWithoutVerification lib tkn of
             (c, scope, err) \<Rightarrow> (Some \<lparr>Claims = c, jwt_Token = token, Scope = scope\<rparr>, err)))"

text \<open>
  The checks of the middleware on a bearer token, in the order of the source: the error
  variable \<open>err\<close> after parsing, offline validation and provider validation, each step
  running only while \<open>err\<close> is nil.
\<close>

definition tokenError ::
  "('t, 'c, 'p) JwtLib \<Rightarrow> StaticConfig \<Rightarrow> 'p option \<Rightarrow> string \<Rightarrow> string option" where
  "tokenError lib staticConfig oidcProvider token =
     (case ParseJWTClaims lib token of
        (_, Some err) \<Rightarrow> Some err
      | (None, None) \<Rightarrow> Some ''failed to parse JWT claims from token''
      | (Some claims, None) \<Rightarrow>
          (case ValidateOffline lib claims (OAuthAudience staticConfig) of
             Some err \<Rightarrow> Some err
           | None \<Rightarrow> ValidateWithProvider lib claims (OAuthAudience staticConfig) oidcProvider))"

definition AuthorizationMiddleware ::
  "('t, 'c, 'p) JwtLib \<Rightarrow> StaticConfig \<Rightarrow> 'p option \<Rightarrow> HttpRequest \<Rightarrow> Handled" where
  "AuthorizationMiddleware lib staticConfig oidcProvider r =
     (if url_Path r = healthEndpoint \<or> url_EscapedPath r \<in> set WellKnownEndpoints
      then Next r
      else if \<not> RequireOAuth staticConfig then Next r
      else
        (let wwwAuthenticateHeader =
               ''Bearer realm='' @ quoted ''Kubernetes MCP Server'' @
               (if OAuthAudience staticConfig \<noteq> []
                then '', audience='' @ quoted (OAuthAudience staticConfig) else []);
             authHeader = Values_Get (req_Header r) ''Authorization''
         in if authHeader = [] \<or> \<not> HasPrefix authHeader ''Bearer ''
            then Responded (write401 wwwAuthenticateHeader ''missing_token''
                              ''Unauthorized: Bearer token required'')
            else
              (let token = TrimPrefix authHeader ''Bearer '' in
               case tokenError lib staticConfig oidcProvider token of
                 Some err \<Rightarrow>
                   Responded (write401 wwwAuthenticateHeader ''invalid_token''
                                ''Unauthorized: Invalid token'')
               | None \<Rightarrow>
                   (case fst (ParseJWTClaims lib token) of
                      Some claims \<Rightarrow> Next (r\<lparr>TokenScopes := Some (GetScopes lib claims)\<rparr>)
                    | None \<Rightarrow> Next r))))"

subsection \<open>What the specification says of the middleware\<close>

text \<open>
  \<open>bypassed\<close>: the request is for the health endpoint or a well-known endpoint.
  \<open>unauthorizedWith h e\<close>: the middleware answered with status 401 and a
  \<open>WWW-Authenticate\<close> header that contains \<open>error="e"\<close>.
\<close>

definition unauthorizedWith :: "Handled \<Rightarrow> string \<Rightarrow> bool" where
  "unauthorizedWith h errorType =
     (case h of
        Next _ \<Rightarrow> False
      | Responded resp \<Rightarrow>
          rw_Status resp = 401 \<and>
          Contains (Values_Get (rw_Header resp) ''WWW-Authenticate'')
            (''error='' @ quoted errorType))"

definition bypassed :: "HttpRequest \<Rightarrow> bool" where
  "bypassed r = (url_Path r = ''/healthz'' \<or> url_EscapedPath r \<in> set WellKnownEndpoints)"

section \<open>Token exchange on the request context\<close>

text \<open>
  A Go context is a finite map from keys to values of any type. The keys the code uses
  are \<open>OAuthAuthorizationHeader\<close> and \<open>oauth2.HTTPClient\<close>; the values it stores are a
  string and an HTTP client. The type parameter stands for every other value.
\<close>

datatype ContextKey = OAuthAuthorizationHeader | OAuth2HTTPClient | OtherKey string

datatype 'a CtxValue = CtxString string | CtxClient Client | CtxOther 'a

type_synonym 'a Context = "ContextKey \<rightharpoonup> 'a CtxValue"

definition WithValue :: "'a Context \<Rightarrow> ContextKey \<Rightarrow> 'a CtxValue \<Rightarrow> 'a Context" where
  "WithValue ctx k v = ctx(k \<mapsto> v)"

text \<open>
  The optional capability \<open>TokenExchangeProvider\<close> of a provider, and an exchanger as the
  registry holds it. The registry maps a strategy name to an exchanger; \<open>register\<close> panics
  (\<open>None\<close>) when the strategy is taken.
\<close>

record TokenExchangeProvider =
  GetTokenExchangeConfig :: "string \<Rightarrow> TargetTokenExchangeConfig option"
  GetTokenExchangeStrategy :: string

type_synonym 'a TokenExchanger =
  "'a Context \<Rightarrow> TargetTokenExchangeConfig \<Rightarrow> string \<Rightarrow> string + Token"

definition register ::
  "(string \<rightharpoonup> 'a TokenExchanger) \<Rightarrow> string \<Rightarrow> 'a TokenExchanger \<Rightarrow>
   (string \<rightharpoonup> 'a TokenExchanger) option" where
  "register exchangers strategy exchanger =
     (if exchangers strategy \<noteq> None then None else Some (exchangers(strategy \<mapsto> exchanger)))"

definition GetTokenExchanger ::
  "(string \<rightharpoonup> 'a TokenExchanger) \<Rightarrow> string \<Rightarrow> 'a TokenExchanger option" where
  "GetTokenExchanger exchangers strategy = exchangers strategy"

text \<open>The registry after \<open>init\<close>: the two exchangers of the package, in a given world.\<close>

definition exchangerRegistry :: "World \<Rightarrow> (string \<rightharpoonup> 'a TokenExchanger)" where
  "exchangerRegistry w =
     [StrategyKeycloakV1 \<mapsto> (\<lambda>ctx cfg subjectToken. fst (keycloakV1_Exchange w cfg subjectToken)),
      StrategyRFC8693 \<mapsto> (\<lambda>ctx cfg subjectToken. fst (rfc8693_Exchange w cfg subjectToken))]"

text \<open>
  The server-level exchange (\<open>NewFromConfig\<close> and its result) is outside the sources:
  whether it is enabled, and its exchange of a token on a context.
\<close>

record 'a Sts =
  IsEnabled :: bool
  ExternalAccountTokenExchange :: "'a Context \<Rightarrow> Token \<Rightarrow> string + Token"

text \<open>Log entries, as the format string and its arguments; \<open>Infof\<close> with its verbosity.\<close>

datatype LogEntry =
  Warningf string "string list" | Errorf string "string list" | Infof nat string "string list"

definition stsExchangeTokenInContext ::
  "'a Sts \<Rightarrow> Client option \<Rightarrow> string \<Rightarrow> 'a Context \<Rightarrow> 'a Context" where
  "stsExchangeTokenInContext sts httpClient token ctx =
     (if \<not> IsEnabled sts then ctx
      else
        (let ctx1 = (case httpClient of
                       Some cl \<Rightarrow> WithValue ctx OAuth2HTTPClient (CtxClient cl)
                     | None \<Rightarrow> ctx)
         in case ExternalAccountTokenExchange sts ctx1
                   \<lparr>AccessToken = token, TokenType = ''Bearer'', RefreshToken = [],
                    Expiry = None\<rparr> of
              Inl err \<Rightarrow> ctx1
            | Inr exchangedToken \<Rightarrow>
                WithValue ctx1 OAuthAuthorizationHeader
                  (CtxString (''Bearer '' @ AccessToken exchangedToken))))"

text \<open>
  \<open>ExchangeTokenInContext\<close>. \<open>newSts\<close> is \<open>NewFromConfig\<close>, \<open>exchangers\<close> the registry,
  \<open>tep\<close> the provider seen as a \<open>TokenExchangeProvider\<close> (\<open>None\<close> when it is not one).
  The result is the context and the log entries written.
\<close>

definition ExchangeTokenInContext ::
  "(StaticConfig \<Rightarrow> 'p option \<Rightarrow> 'a Sts) \<Rightarrow> (string \<rightharpoonup> 'a TokenExchanger) \<Rightarrow>
   'a Context \<Rightarrow> StaticConfig \<Rightarrow> 'p option \<Rightarrow> Client option \<Rightarrow>
   TokenExchangeProvider option \<Rightarrow> string \<Rightarrow> 'a Context \<times> LogEntry list" where
  "ExchangeTokenInContext newSts exchangers ctx cfg oidcProvider httpClient tep target =
     (case ctx OAuthAuthorizationHeader of
        Some (CtxString auth) \<Rightarrow>
          if \<not> HasPrefix auth ''Bearer '' then (ctx, [])
          else
            (let subjectToken = TrimPrefix auth ''Bearer '';
                 sts = stsExchangeTokenInContext (newSts cfg oidcProvider) httpClient
                         subjectToken ctx
             in case tep of
                  None \<Rightarrow> (sts, [])
                | Some p \<Rightarrow>
                    (case GetTokenExchangeConfig p target of
                       None \<Rightarrow> (sts, [])
                     | Some exCfg \<Rightarrow>
                         (case GetTokenExchanger exchangers (GetTokenExchangeStrategy p) of
                            None \<Rightarrow>
                              (sts, [Warningf ''token exchange strategy %q not found in registry''
                                       [GetTokenExchangeStrategy p]])
                          | Some exchanger \<Rightarrow>
                              (case exchanger ctx exCfg subjectToken of
                                 Inl err \<Rightarrow>
                                   (ctx, [Errorf ''token exchange failed for target %q: %v''
                                            [target, err]])
                               | Inr exchanged \<Rightarrow>
                                   (WithValue ctx OAuthAuthorizationHeader
                                      (CtxString (''Bearer '' @ AccessToken exchanged)),
                                    [Infof 4 ''token exchanged successfully for target %q''
                                       [target]])))))
      | _ \<Rightarrow> (ctx, []))"

section \<open>The access-control round tripper\<close>

text \<open>
  Modelled from the spec: \<open>AccessControlRoundTripper.RoundTrip\<close>, its parsing of the
  request path and its test against the denied resources are not among the sources (the
  test suite of the round tripper is). The definitions follow section 4.3 of the
  specification, and the tests for the texts of the errors: \<open>resource not allowed:\<close>
  followed by the group, version and kind in the form \<open>group/version, Kind=kind\<close>, and
  \<open>failed to make request\<close> when the REST mapper fails.
\<close>

record K8sRequest =
  k_Method :: string
  k_Path :: string

record GroupVersionResource =
  r_Group :: string
  r_Version :: string
  Resource :: string

text \<open>\<open>strings.Split\<close> on one separator byte.\<close>

fun splitOn :: "char \<Rightarrow> string \<Rightarrow> string list" where
  "splitOn sep [] = [[]]"
| "splitOn sep (c # cs) =
     (if c = sep then [] # splitOn sep cs
      else (case splitOn sep cs of
              [] \<Rightarrow> [[c]]
            | seg # segs \<Rightarrow> (c # seg) # segs))"

text \<open>
  Step 1: the unprotected endpoints. A discovery endpoint matches
  \<open>^/api(s)?(/[^/]+(/[^/]+)?)?/?$\<close>: the root \<open>/api\<close> or \<open>/apis\<close>, at most two more
  segments, none of them empty, and an optional slash at the end.
\<close>

definition discoveryEndpoint :: "string \<Rightarrow> bool" where
  "discoveryEndpoint path =
     (case splitOn CHR ''/'' path of
        [] # root # rest \<Rightarrow>
          (root = ''api'' \<or> root = ''apis'') \<and>
          (let segs = (if rest \<noteq> [] \<and> last rest = [] then butlast rest else rest)
           in length segs \<le> 2 \<and> [] \<notin> set segs)
      | _ \<Rightarrow> False)"

definition unprotectedEndpoint :: "string \<Rightarrow> bool" where
  "unprotectedEndpoint path =
     (path \<in> set [''/healthz'', ''/readyz'', ''/livez'', ''/metrics'', ''/version''] \<or>
      discoveryEndpoint path)"

text \<open>
  Step 2: the group and version from the API root (the core group has the empty name),
  then the resource: the next segment, after a \<open>/namespaces/<ns>\<close> infix if there is
  one. A path without these segments gives empty names, which the REST mapper does not
  resolve.
\<close>

definition resourceSegment :: "string list \<Rightarrow> string" where
  "resourceSegment rest =
     (case rest of
        [] \<Rightarrow> []
      | [r] \<Rightarrow> r
      | [r, _] \<Rightarrow> r
      | r # ns # r' # _ \<Rightarrow> (if r = ''namespaces'' then r' else r))"

definition parseGVR :: "string \<Rightarrow> GroupVersionResource" where
  "parseGVR path =
     (case splitOn CHR ''/'' path of
        [] # root # rest \<Rightarrow>
          (if root = ''api'' \<and> rest \<noteq> [] \<and> hd rest = ''v1''
           then \<lparr>r_Group = [], r_Version = ''v1'', Resource = resourceSegment (tl rest)\<rparr>
           else if root = ''apis'' \<and> length rest \<ge> 2
           then \<lparr>r_Group = rest ! 0, r_Version = rest ! 1,
                 Resource = resourceSegment (drop 2 rest)\<rparr>
           else \<lparr>r_Group = [], r_Version = [], Resource = []\<rparr>)
      | _ \<Rightarrow> \<lparr>r_Group = [], r_Version = [], Resource = []\<rparr>)"

text \<open>
  Step 3: a rule matches when each of its fields is empty or equals the field of the
  resolved group, version and kind; one matching rule denies.
\<close>

definition matchesRule :: "GroupVersionKind \<Rightarrow> GroupVersionKind \<Rightarrow> bool" where
  "matchesRule rule gvk =
     ((Group rule = [] \<or> Group rule = Group gvk) \<and>
      (Version rule = [] \<or> Version rule = Version gvk) \<and>
      (Kind rule = [] \<or> Kind rule = Kind gvk))"

definition isAllowed :: "GroupVersionKind list option \<Rightarrow> GroupVersionKind \<Rightarrow> bool" where
  "isAllowed deniedResourcesProvider gvk =
     (case deniedResourcesProvider of
        None \<Rightarrow> True
      | Some rules \<Rightarrow> \<not> list_ex (\<lambda>rule. matchesRule rule gvk) rules)"

definition gvkString :: "GroupVersionKind \<Rightarrow> string" where
  "gvkString gvk = Group gvk @ ''/'' @ Version gvk @ '', Kind='' @ Kind gvk"

text \<open>
  \<open>RoundTrip\<close>. The set of unprotected endpoints is the parameter \<open>unprotected\<close>
  (\<open>unprotectedEndpoint\<close> above is the one of the specification; the test suite expects
  \<open>/api/v1/pods\<close>, which its pattern matches, to be checked against the rules), the REST
  mapper is \<open>restMapper\<close>, the wrapped round tripper is \<open>delegate\<close>. The last argument
  and the second result are the requests handed to the delegate so far.
\<close>

definition RoundTrip ::
  "(string \<Rightarrow> bool) \<Rightarrow> (GroupVersionResource \<Rightarrow> string + GroupVersionKind) \<Rightarrow>
   GroupVersionKind list option \<Rightarrow> (K8sRequest \<Rightarrow> string + 'r) \<Rightarrow>
   K8sRequest \<Rightarrow> K8sRequest list \<Rightarrow> (string + 'r) \<times> K8sRequest list" where
  "RoundTrip unprotected restMapper deniedResourcesProvider delegate req delegated =
     (if unprotected (k_Path req) then (delegate req, delegated @ [req])
      else
        (case restMapper (parseGVR (k_Path req)) of
           Inl err \<Rightarrow> (Inl (''failed to make request: '' @ err), delegated)
         | Inr gvk \<Rightarrow>
             if \<not> isAllowed deniedResourcesProvider gvk
             then (Inl (''resource not allowed: '' @ gvkString gvk), delegated)
             else (delegate req, delegated @ [req])))"

section \<open>The MCP server: tools, prompts and reload\<close>

subsection \<open>Tools and prompts\<close>

text \<open>
  An \<open>api.ServerTool\<close> with the fields the server reads; the type parameter is the input
  schema. Its handler is bound when the tool is registered and takes no part in the
  catalog. \<open>GoSdkTool\<close> is the \<open>mcp.Tool\<close> that \<open>ServerToolToGoSdkTool\<close> builds.
\<close>

record 's ServerTool =
  t_Name :: string
  t_Description :: string
  t_Title :: string
  ReadOnlyHint :: "bool option"
  DestructiveHint :: "bool option"
  IdempotentHint :: "bool option"
  OpenWorldHint :: "bool option"
  InputSchema :: 's

record 's GoSdkTool =
  g_Name :: string
  g_Description :: string
  g_Title :: string
  g_AnnotationsTitle :: string
  g_ReadOnlyHint :: bool
  g_DestructiveHint :: "bool option"
  g_IdempotentHint :: bool
  g_OpenWorldHint :: "bool option"
  g_InputSchema :: 's

record ServerPrompt =
  sp_Name :: string
  sp_Description :: string

record GoSdkPrompt =
  gp_Name :: string
  gp_Description :: string

definition ptr_Deref :: "'a option \<Rightarrow> 'a \<Rightarrow> 'a" where
  "ptr_Deref ptr def = (case ptr of Some v \<Rightarrow> v | None \<Rightarrow> def)"

definition toGoSdkTool :: "'s ServerTool \<Rightarrow> 's GoSdkTool" where
  "toGoSdkTool tool =
     \<lparr>g_Name = t_Name tool, g_Description = t_Description tool, g_Title = t_Title tool,
      g_AnnotationsTitle = t_Title tool,
      g_ReadOnlyHint = ptr_Deref (ReadOnlyHint tool) False,
      g_DestructiveHint = DestructiveHint tool,
      g_IdempotentHint = ptr_Deref (IdempotentHint tool) False,
      g_OpenWorldHint = OpenWorldHint tool,
      g_InputSchema = InputSchema tool\<rparr>"

text \<open>\<open>ServerToolToGoSdkTool\<close> has an error result, which the source never uses.\<close>

definition ServerToolToGoSdkTool :: "'s ServerTool \<Rightarrow> string + 's GoSdkTool" where
  "ServerToolToGoSdkTool tool = Inr (toGoSdkTool tool)"

subsection \<open>Provider, toolsets and the functions outside the sources\<close>

text \<open>
  A provider as the reload sees it: what \<open>GetTargets\<close>, \<open>GetDefaultTarget\<close> and
  \<open>GetTargetParameterName\<close> answer. A toolset gives its tools for a provider and its
  prompts.
\<close>

record Provider =
  GetTargets :: "string + string list"
  GetDefaultTarget :: string
  GetTargetParameterName :: string

record 's Toolset =
  GetTools :: "Provider \<Rightarrow> 's ServerTool list"
  GetPrompts :: "ServerPrompt list"

text \<open>
  The functions the reload calls that are defined in other packages or files:
  \<open>toolsets.ToolsetFromString\<close>, the mutator \<open>WithTargetParameter\<close>, the filter
  \<open>ShouldIncludeTargetListTool\<close>, \<open>prompts.ToServerPrompts\<close>, \<open>prompts.MergePrompts\<close>
  and \<open>ServerPromptToGoSdkPrompt\<close>. \<open>CompositeFilter\<close> is the conjunction of its
  filters.
\<close>

record 's Deps =
  ToolsetFromString :: "string \<Rightarrow> 's Toolset"
  WithTargetParameter :: "string \<Rightarrow> string \<Rightarrow> string list \<Rightarrow> 's ServerTool \<Rightarrow> 's ServerTool"
  ShouldIncludeTargetListTool :: "string \<Rightarrow> string list \<Rightarrow> 's ServerTool \<Rightarrow> bool"
  ToServerPrompts :: "string list \<Rightarrow> ServerPrompt list"
  MergePrompts :: "ServerPrompt list \<Rightarrow> ServerPrompt list \<Rightarrow> ServerPrompt list"
  ServerPromptToGoSdkPrompt :: "ServerPrompt \<Rightarrow> string + GoSdkPrompt"

definition CompositeFilter :: "('a \<Rightarrow> bool) \<Rightarrow> ('a \<Rightarrow> bool) \<Rightarrow> 'a \<Rightarrow> bool" where
  "CompositeFilter f g x = (f x \<and> g x)"

subsection \<open>The configuration of the server\<close>

record 's Configuration =
  c_StaticConfig :: StaticConfig
  c_listOutput :: "string option"
  c_toolsets :: "'s Toolset list option"

text \<open>
  \<open>Configuration.Toolsets\<close> fills the cache when it is nil; appending nothing leaves it
  nil. The result is the list and the configuration afterwards.
\<close>

definition Configuration_Toolsets ::
  "'s Deps \<Rightarrow> 's Configuration \<Rightarrow> 's Toolset list \<times> 's Configuration" where
  "Configuration_Toolsets deps c =
     (case c_toolsets c of
        Some cached \<Rightarrow> (cached, c)
      | None \<Rightarrow>
          (let l = map (ToolsetFromString deps) (Toolsets (c_StaticConfig c))
           in (l, c\<lparr>c_toolsets := (if l = [] then None else Some l)\<rparr>)))"

definition isToolApplicable :: "StaticConfig \<Rightarrow> 's ServerTool \<Rightarrow> bool" where
  "isToolApplicable c tool =
     (if ReadOnly c \<and> \<not> ptr_Deref (ReadOnlyHint tool) False then False
      else if DisableDestructive c \<and> ptr_Deref (DestructiveHint tool) False then False
      else if (case EnabledTools c of
                 Some names \<Rightarrow> t_Name tool \<notin> set names | None \<Rightarrow> False) then False
      else if (case DisabledTools c of
                 Some names \<Rightarrow> t_Name tool \<in> set names | None \<Rightarrow> False) then False
      else True)"

subsection \<open>The MCP runtime\<close>

text \<open>
  The runtime keeps the registered tools and prompts by name. \<open>RemoveTools\<close> drops the
  named ones, \<open>AddTool\<close> registers a tool under its name, replacing one of the same name.
  \<open>calls\<close> is the sequence of calls made on the runtime.
\<close>

datatype McpCall =
  RemoveToolsCall "string list" | AddToolCall string |
  RemovePromptsCall "string list" | AddPromptCall string

record 's McpServer =
  tools :: "string \<rightharpoonup> 's GoSdkTool"
  prompts :: "string \<rightharpoonup> GoSdkPrompt"
  calls :: "McpCall list"

definition mcp_RemoveTools :: "'s McpServer \<Rightarrow> string list \<Rightarrow> 's McpServer" where
  "mcp_RemoveTools srv names =
     srv\<lparr>tools := tools srv |` (- set names), calls := calls srv @ [RemoveToolsCall names]\<rparr>"

definition mcp_AddTool :: "'s McpServer \<Rightarrow> 's GoSdkTool \<Rightarrow> 's McpServer" where
  "mcp_AddTool srv t =
     srv\<lparr>tools := (tools srv)(g_Name t \<mapsto> t), calls := calls srv @ [AddToolCall (g_Name t)]\<rparr>"

definition mcp_RemovePrompts :: "'s McpServer \<Rightarrow> string list \<Rightarrow> 's McpServer" where
  "mcp_RemovePrompts srv names =
     srv\<lparr>prompts := prompts srv |` (- set names),
         calls := calls srv @ [RemovePromptsCall names]\<rparr>"

definition mcp_AddPrompt :: "'s McpServer \<Rightarrow> GoSdkPrompt \<Rightarrow> 's McpServer" where
  "mcp_AddPrompt srv pr =
     srv\<lparr>prompts := (prompts srv)(gp_Name pr \<mapsto> pr),
         calls := calls srv @ [AddPromptCall (gp_Name pr)]\<rparr>"

subsection \<open>The server and its reload\<close>

record 's Server =
  configuration :: "'s Configuration"
  server :: "'s McpServer"
  enabledTools :: "string list"
  enabledPrompts :: "string list"
  srv_p :: Provider
  watchTargetsCalls :: nat

text \<open>
  The two registration loops of \<open>reloadToolsets\<close>: each stops at the first conversion
  error and returns it, with the runtime as it is then.
\<close>

fun addTools :: "'s McpServer \<Rightarrow> 's ServerTool list \<Rightarrow> string option \<times> 's McpServer" where
  "addTools srv [] = (None, srv)"
| "addTools srv (tool # rest) =
     (case ServerToolToGoSdkTool tool of
        Inl err \<Rightarrow> (Some (''failed to convert tool '' @ t_Name tool @ '': '' @ err), srv)
      | Inr goSdkTool \<Rightarrow> addTools (mcp_AddTool srv goSdkTool) rest)"

fun addPrompts ::
  "'s Deps \<Rightarrow> 's McpServer \<Rightarrow> ServerPrompt list \<Rightarrow> string option \<times> 's McpServer" where
  "addPrompts deps srv [] = (None, srv)"
| "addPrompts deps srv (prompt # rest) =
     (case ServerPromptToGoSdkPrompt deps prompt of
        Inl err \<Rightarrow> (Some (''failed to convert prompt '' @ sp_Name prompt @ '': '' @ err), srv)
      | Inr mcpPrompt \<Rightarrow> addPrompts deps (mcp_AddPrompt srv mcpPrompt) rest)"

text \<open>
  The first half of \<open>reloadToolsets\<close>, for the targets the provider gave: the applicable
  tools are the tools of every configured toolset, mutated and then filtered; the enabled
  names are replaced, the previously enabled names that are no longer enabled are removed
  from the runtime, and every applicable tool is registered.
\<close>

definition applicableTools :: "'s Deps \<Rightarrow> 's Server \<Rightarrow> string list \<Rightarrow> 's ServerTool list" where
  "applicableTools deps s targets =
     (let flt = CompositeFilter (isToolApplicable (c_StaticConfig (configuration s)))
                  (ShouldIncludeTargetListTool deps (GetTargetParameterName (srv_p s)) targets);
          mutator = WithTargetParameter deps (GetDefaultTarget (srv_p s))
                      (GetTargetParameterName (srv_p s)) targets
      in filter flt (map mutator
           (concat (map (\<lambda>toolset. GetTools toolset (srv_p s))
                        (fst (Configuration_Toolsets deps (configuration s)))))))"

definition reloadTools :: "'s Deps \<Rightarrow> 's Server \<Rightarrow> string list \<Rightarrow> string option \<times> 's Server" where
  "reloadTools deps s targets =
     (let previousTools = enabledTools s;
          applicable = applicableTools deps s targets;
          enabled = map t_Name applicable;
          toolsToRemove = filter (\<lambda>oldTool. oldTool \<notin> set enabled) previousTools;
          (err, srv) = addTools (mcp_RemoveTools (server s) toolsToRemove) applicable
      in (err, s\<lparr>configuration := snd (Configuration_Toolsets deps (configuration s)),
                 enabledTools := enabled, server := srv\<rparr>))"

text \<open>The second half: the same for the prompts of the toolsets merged with the configured ones.\<close>

definition reloadPrompts :: "'s Deps \<Rightarrow> 's Server \<Rightarrow> string option \<times> 's Server" where
  "reloadPrompts deps s =
     (let previousPrompts = enabledPrompts s;
          toolsetPrompts = concat (map GetPrompts
                             (fst (Configuration_Toolsets deps (configuration s))));
          configPrompts = ToServerPrompts deps (Prompts (c_StaticConfig (configuration s)));
          applicablePrompts = MergePrompts deps toolsetPrompts configPrompts;
          enabled = map sp_Name applicablePrompts;
          promptsToRemove = filter (\<lambda>oldPrompt. oldPrompt \<notin> set enabled) previousPrompts;
          (err, srv) = addPrompts deps (mcp_RemovePrompts (server s) promptsToRemove)
                         applicablePrompts
      in (err, s\<lparr>configuration := snd (Configuration_Toolsets deps (configuration s)),
                 enabledPrompts := enabled, server := srv\<rparr>))"

text \<open>
  \<open>reloadToolsets\<close> returns the error, if any, and the server as the call leaves it: the
  source updates the server in place and returns early on an error.
\<close>

definition reloadToolsets :: "'s Deps \<Rightarrow> 's Server \<Rightarrow> string option \<times> 's Server" where
  "reloadToolsets deps s =
     (case GetTargets (srv_p s) of
        Inl err \<Rightarrow> (Some err, s)
      | Inr targets \<Rightarrow>
          (case reloadTools deps s targets of
             (Some err, s1) \<Rightarrow> (Some err, s1)
           | (None, s1) \<Rightarrow>
               (case reloadPrompts deps s1 of
                  (Some err, s2) \<Rightarrow> (Some err, s2)
                | (None, s2) \<Rightarrow>
                    (None, s2\<lparr>watchTargetsCalls := Suc (watchTargetsCalls s2)\<rparr>))))"

text \<open>
  \<open>NewServer\<close>, once the provider is built: nothing is enabled or registered, the
  toolsets are loaded and the targets are watched.
\<close>

definition NewServer ::
  "'s Deps \<Rightarrow> StaticConfig \<Rightarrow> Provider \<Rightarrow> string + 's Server" where
  "NewServer deps cfg provider =
     (case reloadToolsets deps
             \<lparr>configuration = \<lparr>c_StaticConfig = cfg, c_listOutput = None, c_toolsets = None\<rparr>,
              server = \<lparr>tools = Map.empty, prompts = Map.empty, calls = []\<rparr>,
              enabledTools = [], enabledPrompts = [], srv_p = provider,
              watchTargetsCalls = 0\<rparr> of
        (Some err, _) \<Rightarrow> Inl err
      | (None, s) \<Rightarrow> Inr (s\<lparr>watchTargetsCalls := Suc (watchTargetsCalls s)\<rparr>))"

text \<open>
  \<open>ReloadConfiguration\<close> installs the new configuration, clears the cached values and
  reloads the toolsets.
\<close>

definition ReloadConfiguration ::
  "'s Deps \<Rightarrow> 's Server \<Rightarrow> StaticConfig \<Rightarrow> string option \<times> 's Server" where
  "ReloadConfiguration deps s newConfig =
     (case reloadToolsets deps
             (s\<lparr>configuration :=
                  \<lparr>c_StaticConfig = newConfig, c_listOutput = None, c_toolsets = None\<rparr>\<rparr>) of
        (Some err, s') \<Rightarrow> (Some (''failed to reload toolsets: '' @ err), s')
      | (None, s') \<Rightarrow> (None, s'))"

text \<open>
  One round of the SIGHUP handler: \<open>config.Read\<close> gave \<open>readResult\<close>; on an error the
  handler logs and goes on to the next signal, otherwise it applies the configuration.
\<close>

definition sighupReload ::
  "'s Deps \<Rightarrow> string + StaticConfig \<Rightarrow> 's Server \<Rightarrow> string option \<times> 's Server" where
  "sighupReload deps readResult s =
     (case readResult of
        Inl err \<Rightarrow> (Some err, s)
      | Inr newConfig \<Rightarrow> ReloadConfiguration deps s newConfig)"

subsection \<open>The handler of a tool\<close>

text \<open>
  The handler that \<open>ServerToolToGoSdkTool\<close> binds to a tool. Its surroundings: the
  decoding of the JSON arguments, the server-level exchange and the registry of
  exchangers, the OIDC provider and HTTP client of the server, the provider seen as a
  \<open>TokenExchangeProvider\<close>, the provider's \<open>GetDerivedKubernetes\<close> and the handler of
  the tool (which returns a content and an error of its own, or fails).
\<close>

record CallToolParamsRaw =
  cp_Name :: string
  cp_Arguments :: string

record CallToolResult =
  IsError :: bool
  Text :: string

record ('a, 'p, 'k) HandlerEnv =
  h_Unmarshal :: "string \<Rightarrow> string + (string \<rightharpoonup> 'a any)"
  h_newSts :: "StaticConfig \<Rightarrow> 'p option \<Rightarrow> 'a Sts"
  h_exchangers :: "string \<rightharpoonup> 'a TokenExchanger"
  h_oidcProvider :: "'p option"
  h_httpClient :: "Client option"
  h_tep :: "TokenExchangeProvider option"
  h_GetDerivedKubernetes :: "'a Context \<Rightarrow> string \<Rightarrow> string + 'k"
  h_Handler :: "'a Context \<Rightarrow> 'k \<Rightarrow> 'a ToolCallRequest \<Rightarrow> string + (string \<times> string option)"

definition GoSdkToolCallParamsToToolCallRequest ::
  "(string \<Rightarrow> string + (string \<rightharpoonup> 'a any)) \<Rightarrow> CallToolParamsRaw \<Rightarrow>
   string + 'a ToolCallRequest" where
  "GoSdkToolCallParamsToToolCallRequest unmarshal toolCallParams =
     (case unmarshal (cp_Arguments toolCallParams) of
        Inl err \<Rightarrow> Inl (''failed to unmarshal tool call arguments: '' @ err)
      | Inr args \<Rightarrow> Inr \<lparr>tcr_Name = cp_Name toolCallParams, arguments = args\<rparr>)"

text \<open>The parameters of the request are \<open>None\<close> when they are not raw call parameters.\<close>

definition GoSdkToolCallRequestToToolCallRequest ::
  "(string \<Rightarrow> string + (string \<rightharpoonup> 'a any)) \<Rightarrow> CallToolParamsRaw option \<Rightarrow>
   string + 'a ToolCallRequest" where
  "GoSdkToolCallRequestToToolCallRequest unmarshal params =
     (case params of
        None \<Rightarrow> Inl ''invalid tool call parameters for tool call request''
      | Some toolCallParams \<Rightarrow> GoSdkToolCallParamsToToolCallRequest unmarshal toolCallParams)"

definition NewTextResult :: "string \<Rightarrow> string option \<Rightarrow> CallToolResult" where
  "NewTextResult content err =
     (case err of
        Some e \<Rightarrow> \<lparr>IsError = True, Text = e\<rparr>
      | None \<Rightarrow> \<lparr>IsError = False, Text = content\<rparr>)"

text \<open>
  The target of a call (\<open>cluster\<close> in the source): the string under the provider's target
  parameter name, or the provider's default target.
\<close>

definition handlerCluster :: "Provider \<Rightarrow> 'a ToolCallRequest \<Rightarrow> string" where
  "handlerCluster provider toolCallRequest =
     GetString toolCallRequest (GetTargetParameterName provider) (GetDefaultTarget provider)"

text \<open>
  \<open>goSdkHandler\<close> returns the result of the call and the targets it asked a derived
  client for.
\<close>

definition goSdkHandler ::
  "('a, 'p, 'k) HandlerEnv \<Rightarrow> 's Server \<Rightarrow> string \<Rightarrow> 'a Context \<Rightarrow>
   CallToolParamsRaw option \<Rightarrow> (string + CallToolResult) \<times> string list" where
  "goSdkHandler env s toolName ctx request =
     (case GoSdkToolCallRequestToToolCallRequest (h_Unmarshal env) request of
        Inl err \<Rightarrow> (Inl (err @ '' for tool '' @ toolName), [])
      | Inr toolCallRequest \<Rightarrow>
          (let cluster = handlerCluster (srv_p s) toolCallRequest;
               ctx1 = fst (ExchangeTokenInContext (h_newSts env) (h_exchangers env) ctx
                             (c_StaticConfig (configuration s)) (h_oidcProvider env)
                             (h_httpClient env) (h_tep env) cluster)
           in case h_GetDerivedKubernetes env ctx1 cluster of
                Inl err \<Rightarrow> (Inl err, [cluster])
              | Inr k \<Rightarrow>
                  (case h_Handler env ctx1 k toolCallRequest of
                     Inl err \<Rightarrow> (Inl err, [cluster])
                   | Inr (content, resultError) \<Rightarrow>
                       (Inr (NewTextResult content resultError), [cluster]))))"

text \<open>
  The prompts that \<open>reloadToolsets\<close> registers for a configuration: the prompts of its
  toolsets merged with the configured ones.
\<close>

definition applicablePrompts :: "'s Deps \<Rightarrow> 's Configuration \<Rightarrow> ServerPrompt list" where
  "applicablePrompts deps c =
     MergePrompts deps (concat (map GetPrompts (fst (Configuration_Toolsets deps c))))
       (ToServerPrompts deps (Prompts (c_StaticConfig c)))"

section \<open>Fixtures\<close>

text \<open>
  A configuration with every field at its zero value, as Go's \<open>&config.StaticConfig{}\<close>;
  concrete instances of the theorems start from it.
\<close>

definition zeroConfig :: StaticConfig where
  "zeroConfig = \<lparr>LogLevel = 0, Port = [], SSEBaseURL = [], KubeConfig = [], ListOutput = [],
     ReadOnly = False, DisableDestructive = False, Stateless = False, Toolsets = [],
     EnabledTools = None, DisabledTools = None, RequireOAuth = False, OAuthAudience = [],
     AuthorizationURL = [], ServerURL = [], CertificateAuthority = [],
     ClusterProviderStrategy = [], DeniedResources = [], Prompts = []\<rparr>"

definition zeroOptions :: MCPServerOptions where
  "zeroOptions = \<lparr>o_Version = False, o_LogLevel = 0, o_Port = [], o_SSEBaseUrl = [],
     o_Kubeconfig = [], o_Toolsets = [], o_ListOutput = [], o_ReadOnly = False,
     o_DisableDestructive = False, o_Stateless = False, o_RequireOAuth = False,
     o_OAuthAudience = [], o_AuthorizationURL = [], o_CertificateAuthority = [],
     o_ServerURL = [], o_DisableMultiCluster = False, ConfigPath = [], ConfigDir = [],
     o_StaticConfig = zeroConfig\<rparr>"

definition exampleWorld :: World where
  "exampleWorld = \<lparr>ReadFile = (\<lambda>p. Inl ''no such file''), AppendCertsFromPEM = (\<lambda>pem. False),
     NewRequestErr = (\<lambda>u. None),
     Do = (\<lambda>cl req. Inr \<lparr>StatusCode = 400, resp_Body = Inr ''invalid_grant: token expired''\<rparr>),
     Unmarshal = (\<lambda>b. Inl ''unexpected end of JSON input''), Now = 0\<rparr>"

definition exampleExchangeConfig :: TargetTokenExchangeConfig where
  "exampleExchangeConfig = \<lparr>TokenURL = ''https://idp.example/token'', ClientID = ''mcp'',
     ClientSecret = ''s3cret'', Audience = ''cluster-a'',
     SubjectTokenType = ''urn:ietf:params:oauth:token-type:access_token'',
     SubjectIssuer = [], Scopes = [], CAFile = [], AuthStyle = [], client = None\<rparr>"

definition exampleClient :: Client where
  "exampleClient = \<lparr>Timeout = 30000000000, Transport = \<lparr>TLSClientConfig = None\<rparr>\<rparr>"

text \<open>The requests the two exchangers send for \<open>exampleExchangeConfig\<close> and subject token \<open>T\<close>.\<close>

definition exampleRfcRequest :: Request where
  "exampleRfcRequest = \<lparr>Method = ''POST'', URL = ''https://idp.example/token'',
      Header = [(''Content-Type'', [''application/x-www-form-urlencoded''])],
      Body = ''audience=cluster-a&client_id=mcp&client_secret=s3cret&grant_type=urn%3Aietf%3Aparams%3Aoauth%3Agrant-type%3Atoken-exchange&requested_token_type=urn%3Aietf%3Aparams%3Aoauth%3Atoken-type%3Aaccess_token&subject_token=T&subject_token_type=urn%3Aietf%3Aparams%3Aoauth%3Atoken-type%3Aaccess_token''\<rparr>"

definition exampleKeycloakRequest :: Request where
  "exampleKeycloakRequest = \<lparr>Method = ''POST'', URL = ''https://idp.example/token'',
      Header = [(''Content-Type'', [''application/x-www-form-urlencoded''])],
      Body = ''audience=cluster-a&client_id=mcp&client_secret=s3cret&grant_type=urn%3Aietf%3Aparams%3Aoauth%3Agrant-type%3Atoken-exchange&subject_token=T&subject_token_type=urn%3Aietf%3Aparams%3Aoauth%3Atoken-type%3Aaccess_token''\<rparr>"

text \<open>
  The request sent when the configuration has the header style, a client secret and no
  client id.
\<close>

definition exampleNoClientIdRequest :: Request where
  "exampleNoClientIdRequest = \<lparr>Method = ''POST'', URL = ''https://idp.example/token'',
      Header = [(''Content-Type'', [''application/x-www-form-urlencoded''])],
      Body = ''audience=cluster-a&grant_type=urn%3Aietf%3Aparams%3Aoauth%3Agrant-type%3Atoken-exchange&requested_token_type=urn%3Aietf%3Aparams%3Aoauth%3Atoken-type%3Aaccess_token&subject_token=T&subject_token_type=urn%3Aietf%3Aparams%3Aoauth%3Atoken-type%3Aaccess_token''\<rparr>"

definition exampleHttpRequest :: "string \<Rightarrow> string \<Rightarrow> HttpRequest" where
  "exampleHttpRequest path auth =
     \<lparr>req_Method = ''POST'', url_Path = path, url_EscapedPath = path,
      req_Header = (if auth = [] then [] else [(''Authorization'', [auth])]),
      RemoteAddr = ''127.0.0.1:40000'', TokenScopes = None\<rparr>"

definition exampleJwtLib :: "(string, nat, unit) JwtLib" where
  "exampleJwtLib =
     \<lparr>ParseSigned = (\<lambda>t. if t = ''good'' \<or> t = ''expired'' then Inr t
                         else Inl ''compact JWS format must have three parts''),
      UnsafeClaimsWithoutVerification =
        (\<lambda>t. (if t = ''expired'' then 0 else 1, ''read write'', None)),
      ClaimsValidate = (\<lambda>c aud. if c = 0 then Some ''token is expired'' else None),
      Verify = (\<lambda>p aud t. Some ''failed to verify signature''),
      Fields = (\<lambda>s. [''read'', ''write''])\<rparr>"

definition exampleSts :: "StaticConfig \<Rightarrow> unit option \<Rightarrow> nat Sts" where
  "exampleSts cfg oidcProvider =
     \<lparr>IsEnabled = False, ExternalAccountTokenExchange = (\<lambda>ctx t. Inl ''sts is not configured'')\<rparr>"

definition exampleTep :: TokenExchangeProvider where
  "exampleTep =
     \<lparr>GetTokenExchangeConfig =
        (\<lambda>target. if target = ''cluster-a'' then Some exampleExchangeConfig else None),
      GetTokenExchangeStrategy = ''rfc8693''\<rparr>"

definition exampleContext :: "nat Context" where
  "exampleContext = [OAuthAuthorizationHeader \<mapsto> CtxString ''Bearer T'']"

text \<open>A world whose identity provider answers 200 with an access token.\<close>

definition exampleWorldOk :: World where
  "exampleWorldOk = exampleWorld
     \<lparr>Do := (\<lambda>cl req. Inr \<lparr>StatusCode = 200, resp_Body = Inr ''{...}''\<rparr>),
      Unmarshal := (\<lambda>b. Inr \<lparr>r_AccessToken = ''X'', r_TokenType = ''Bearer'', r_ExpiresIn = 0,
                             r_RefreshToken = [], r_Scope = [], r_IssuedTokenType = []\<rparr>)\<rparr>"

definition exampleRestMapper :: "GroupVersionResource \<Rightarrow> string + GroupVersionKind" where
  "exampleRestMapper gvr =
     (if gvr = \<lparr>r_Group = [], r_Version = ''v1'', Resource = ''pods''\<rparr>
      then Inr \<lparr>Group = [], Version = ''v1'', Kind = ''Pod''\<rparr>
      else if gvr = \<lparr>r_Group = ''apps'', r_Version = ''v1'', Resource = ''deployments''\<rparr>
      then Inr \<lparr>Group = ''apps'', Version = ''v1'', Kind = ''Deployment''\<rparr>
      else Inl (''no matches for '' @ Resource gvr))"

definition exampleDelegate :: "K8sRequest \<Rightarrow> string + nat" where
  "exampleDelegate req = Inr 200"

text \<open>
  A server with two toolsets to choose from, a provider with the single target of a
  single cluster, and a prompt named \<open>bad\<close> that cannot be converted.
\<close>

definition exampleTool :: "string \<Rightarrow> bool option \<Rightarrow> bool option \<Rightarrow> unit ServerTool" where
  "exampleTool name readOnly destructive =
     \<lparr>t_Name = name, t_Description = [], t_Title = [], ReadOnlyHint = readOnly,
      DestructiveHint = destructive, IdempotentHint = None, OpenWorldHint = None,
      InputSchema = ()\<rparr>"

definition exampleDeps :: "unit Deps" where
  "exampleDeps =
     \<lparr>ToolsetFromString =
        (\<lambda>name. \<lparr>GetTools = (\<lambda>provider.
                      if name = ''core''
                      then [exampleTool ''pods_list'' (Some True) None,
                            exampleTool ''pods_delete'' None (Some True)]
                      else if name = ''helm'' then [exampleTool ''helm_list'' (Some True) None]
                      else []),
                   GetPrompts = []\<rparr>),
      WithTargetParameter = (\<lambda>defaultTarget name targets tool. tool),
      ShouldIncludeTargetListTool = (\<lambda>name targets tool. True),
      ToServerPrompts = map (\<lambda>name. \<lparr>sp_Name = name, sp_Description = []\<rparr>),
      MergePrompts = (\<lambda>embedded configured. embedded @ configured),
      ServerPromptToGoSdkPrompt =
        (\<lambda>prompt. if sp_Name prompt = ''bad'' then Inl ''invalid prompt''
                  else Inr \<lparr>gp_Name = sp_Name prompt, gp_Description = sp_Description prompt\<rparr>)\<rparr>"

definition exampleProvider :: Provider where
  "exampleProvider = \<lparr>GetTargets = Inr [[]], GetDefaultTarget = [], GetTargetParameterName = []\<rparr>"

definition exampleServer0 :: "unit Server" where
  "exampleServer0 =
     \<lparr>configuration = \<lparr>c_StaticConfig = zeroConfig\<lparr>Toolsets := [''core'']\<rparr>,
                        c_listOutput = None, c_toolsets = None\<rparr>,
      server = \<lparr>tools = Map.empty, prompts = Map.empty, calls = []\<rparr>,
      enabledTools = [], enabledPrompts = [], srv_p = exampleProvider,
      watchTargetsCalls = 0\<rparr>"

definition exampleServer1 :: "unit Server" where
  "exampleServer1 = snd (reloadToolsets exampleDeps exampleServer0)"

definition exampleNewConfig :: StaticConfig where
  "exampleNewConfig = zeroConfig\<lparr>Toolsets := [''core'', ''helm''], Prompts := [''bad'']\<rparr>"



definition exampleFailingProvider :: Provider where
  "exampleFailingProvider =
     \<lparr>GetTargets = Inl ''connection refused'', GetDefaultTarget = [],
      GetTargetParameterName = []\<rparr>"

definition exampleHandlerEnv :: "(nat, unit, string) HandlerEnv" where
  "exampleHandlerEnv =
     \<lparr>h_Unmarshal =
        (\<lambda>raw. if raw = ''{}'' then Inr Map.empty
               else if raw = ''{context:ctx-2}'' then Inr [''context'' \<mapsto> AnyString ''ctx-2'']
               else if raw = ''{context:7}'' then Inr [''context'' \<mapsto> AnyOther 7]
               else if raw = ''{context:}'' then Inr [''context'' \<mapsto> AnyString []]
               else Inl ''invalid character''),
      h_newSts = exampleSts, h_exchangers = Map.empty, h_oidcProvider = None,
      h_httpClient = None, h_tep = None,
      h_GetDerivedKubernetes = (\<lambda>ctx target. Inr target),
      h_Handler = (\<lambda>ctx k req. Inr (''pods of '' @ k, None))\<rparr>"

definition exampleKubeconfigProvider :: Provider where
  "exampleKubeconfigProvider =
     \<lparr>GetTargets = Inr [''ctx-1'', ''ctx-2''], GetDefaultTarget = ''ctx-1'',
      GetTargetParameterName = ''context''\<rparr>"



text \<open>
  A configuration whose second prompt cannot be converted: the first is registered
  before the registration stops.
\<close>

definition examplePromptsConfig :: StaticConfig where
  "examplePromptsConfig =
     zeroConfig\<lparr>Toolsets := [''core''], Prompts := [''greet'', ''bad'', ''late'']\<rparr>"

section \<open>Theorems\<close>

text \<open>
  C9. The provider strategy is resolved in this order: an explicitly configured
  strategy when non-empty; otherwise the kubeconfig strategy when a kubeconfig path is
  set; otherwise the in-cluster strategy when in-cluster detection succeeds; otherwise
  the kubeconfig strategy.
\<close>

theorem resolveStrategy_order:
  "(ClusterProviderStrategy cfg \<noteq> [] \<longrightarrow>
      resolveStrategy e cfg = ClusterProviderStrategy cfg) \<and>
   (ClusterProviderStrategy cfg = [] \<and> KubeConfig cfg \<noteq> [] \<longrightarrow>
      resolveStrategy e cfg = ''kubeconfig'') \<and>
   (ClusterProviderStrategy cfg = [] \<and> KubeConfig cfg = [] \<and> e = None \<longrightarrow>
      resolveStrategy e cfg = ''in-cluster'') \<and>
   (ClusterProviderStrategy cfg = [] \<and> KubeConfig cfg = [] \<and> e \<noteq> None \<longrightarrow>
      resolveStrategy e cfg = ''kubeconfig'')"
  by (simp add: resolveStrategy_def ClusterProviderKubeConfig_def ClusterProviderInCluster_def)

theorem resolveStrategy_order_witness:
  "resolveStrategy None (zeroConfig\<lparr>ClusterProviderStrategy := ''disabled'', KubeConfig := ''/k''\<rparr>)
     = ''disabled'' \<and>
   resolveStrategy None (zeroConfig\<lparr>KubeConfig := ''/home/u/.kube/config''\<rparr>) = ''kubeconfig'' \<and>
   resolveStrategy None zeroConfig = ''in-cluster'' \<and>
   resolveStrategy (Some ''not in a cluster'') zeroConfig = ''kubeconfig''"
  using resolveStrategy_order [of "zeroConfig\<lparr>ClusterProviderStrategy := ''disabled'', KubeConfig := ''/k''\<rparr>" None]
        resolveStrategy_order [of "zeroConfig\<lparr>KubeConfig := ''/home/u/.kube/config''\<rparr>" None]
        resolveStrategy_order [of zeroConfig None]
        resolveStrategy_order [of zeroConfig "Some ''not in a cluster''"]
  by (simp add: zeroConfig_def)

text \<open>
  C10. When, after reading the configuration files and applying the command-line flags,
  require-oauth is enabled and the port is empty (stdio transport), \<open>Complete\<close> returns
  without an error and with \<open>RequireOAuth\<close> set to false, every other field being as
  loaded; so validation and startup, which run on the completed options, never see the
  OAuth requirement on a stdio server.
\<close>

theorem Complete_stdio_forces_RequireOAuth_false:
  assumes loaded:
    "(ConfigPath m = [] \<and> ConfigDir m = [] \<and> m1 = m) \<or>
     ((ConfigPath m \<noteq> [] \<or> ConfigDir m \<noteq> []) \<and>
      readConfig (ConfigPath m) (ConfigDir m) = Inr cnf \<and> m1 = m\<lparr>o_StaticConfig := cnf\<rparr>)"
    and c: "c = o_StaticConfig (loadFlags changed m1)"
    and oauth: "RequireOAuth c"
    and stdio: "Port c = []"
  shows "Complete readConfig changed m =
           Inr ((loadFlags changed m1)\<lparr>o_StaticConfig := c\<lparr>RequireOAuth := False\<rparr>\<rparr>)"
  using loaded
proof
  assume "ConfigPath m = [] \<and> ConfigDir m = [] \<and> m1 = m"
  with c oauth stdio show ?thesis
    by (simp add: Complete_def Let_def)
next
  assume "(ConfigPath m \<noteq> [] \<or> ConfigDir m \<noteq> []) \<and>
      readConfig (ConfigPath m) (ConfigDir m) = Inr cnf \<and> m1 = m\<lparr>o_StaticConfig := cnf\<rparr>"
  with c oauth stdio show ?thesis
    by (auto simp add: Complete_def Let_def)
qed

theorem Complete_stdio_forces_RequireOAuth_false_witness:
  "RequireOAuth (o_StaticConfig (loadFlags (\<lambda>f. f = ''require-oauth'')
      (zeroOptions\<lparr>o_RequireOAuth := True\<rparr>))) \<and>
   Port (o_StaticConfig (loadFlags (\<lambda>f. f = ''require-oauth'')
      (zeroOptions\<lparr>o_RequireOAuth := True\<rparr>))) = [] \<and>
   Complete (\<lambda>p d. Inl ''unused'') (\<lambda>f. f = ''require-oauth'') (zeroOptions\<lparr>o_RequireOAuth := True\<rparr>)
     = Inr (zeroOptions\<lparr>o_RequireOAuth := True\<rparr>)"
  using Complete_stdio_forces_RequireOAuth_false
    [of "zeroOptions\<lparr>o_RequireOAuth := True\<rparr>" "zeroOptions\<lparr>o_RequireOAuth := True\<rparr>"
        "\<lambda>p d. Inl ''unused''" undefined
        "o_StaticConfig (loadFlags (\<lambda>f. f = ''require-oauth'') (zeroOptions\<lparr>o_RequireOAuth := True\<rparr>))"
        "\<lambda>f. f = ''require-oauth''"]
  by (simp add: loadFlags_def zeroOptions_def zeroConfig_def Let_def)

text \<open>
  C6 (as the code has it). For every tool call whose arguments decode, the handler asks
  the provider for the derived client of exactly one target: the value of the target
  parameter whenever the arguments hold a string under that name, the empty string
  included; the provider's default target when the parameter is absent or holds a value
  that is not a string.
\<close>

theorem goSdkHandler_target:
  assumes "h_Unmarshal env (cp_Arguments params) = Inr args"
  shows "(args (GetTargetParameterName (srv_p s)) = Some (AnyString v) \<longrightarrow>
            snd (goSdkHandler env s toolName ctx (Some params)) = [v]) \<and>
         (args (GetTargetParameterName (srv_p s)) = None \<longrightarrow>
            snd (goSdkHandler env s toolName ctx (Some params)) = [GetDefaultTarget (srv_p s)]) \<and>
         (args (GetTargetParameterName (srv_p s)) = Some (AnyOther x) \<longrightarrow>
            snd (goSdkHandler env s toolName ctx (Some params)) = [GetDefaultTarget (srv_p s)])"
  using assms
  by (auto simp add: goSdkHandler_def GoSdkToolCallRequestToToolCallRequest_def
        GoSdkToolCallParamsToToolCallRequest_def handlerCluster_def GetString_def Let_def
        split: sum.splits prod.splits)

theorem goSdkHandler_target_witness:
  "goSdkHandler exampleHandlerEnv (exampleServer0\<lparr>srv_p := exampleKubeconfigProvider\<rparr>)
       ''pods_list'' exampleContext (Some \<lparr>cp_Name = ''pods_list'', cp_Arguments = ''{context:ctx-2}''\<rparr>)
     = (Inr \<lparr>IsError = False, Text = ''pods of ctx-2''\<rparr>, [''ctx-2'']) \<and>
   goSdkHandler exampleHandlerEnv (exampleServer0\<lparr>srv_p := exampleKubeconfigProvider\<rparr>)
       ''pods_list'' exampleContext (Some \<lparr>cp_Name = ''pods_list'', cp_Arguments = ''{}''\<rparr>)
     = (Inr \<lparr>IsError = False, Text = ''pods of ctx-1''\<rparr>, [''ctx-1'']) \<and>
   goSdkHandler exampleHandlerEnv (exampleServer0\<lparr>srv_p := exampleKubeconfigProvider\<rparr>)
       ''pods_list'' exampleContext (Some \<lparr>cp_Name = ''pods_list'', cp_Arguments = ''{context:7}''\<rparr>)
     = (Inr \<lparr>IsError = False, Text = ''pods of ctx-1''\<rparr>, [''ctx-1''])"
proof -
  let ?s = "exampleServer0\<lparr>srv_p := exampleKubeconfigProvider\<rparr>"
  have u: "h_Unmarshal exampleHandlerEnv ''{context:ctx-2}'' = Inr [''context'' \<mapsto> AnyString ''ctx-2'']"
    "h_Unmarshal exampleHandlerEnv ''{}'' = Inr Map.empty"
    "h_Unmarshal exampleHandlerEnv ''{context:7}'' = Inr [''context'' \<mapsto> AnyOther 7]"
    by (simp_all add: exampleHandlerEnv_def)
  have n: "GetTargetParameterName (srv_p ?s) = ''context''" "GetDefaultTarget (srv_p ?s) = ''ctx-1''"
    by (simp_all add: exampleKubeconfigProvider_def)
  have r: "\<And>raw. fst (goSdkHandler exampleHandlerEnv ?s ''pods_list'' exampleContext
             (Some \<lparr>cp_Name = ''pods_list'', cp_Arguments = raw\<rparr>)) =
           (case h_Unmarshal exampleHandlerEnv raw of
              Inl err \<Rightarrow> Inl (''failed to unmarshal tool call arguments: '' @ err @
                               '' for tool pods_list'')
            | Inr args \<Rightarrow>
                Inr \<lparr>IsError = False,
                     Text = ''pods of '' @ GetString \<lparr>tcr_Name = ''pods_list'', arguments = args\<rparr>
                                            ''context'' ''ctx-1''\<rparr>)"
    by (simp add: goSdkHandler_def GoSdkToolCallRequestToToolCallRequest_def
          GoSdkToolCallParamsToToolCallRequest_def handlerCluster_def Let_def
          NewTextResult_def exampleHandlerEnv_def exampleKubeconfigProvider_def
          split: sum.splits)
  have t: "snd (goSdkHandler exampleHandlerEnv ?s ''pods_list'' exampleContext
             (Some \<lparr>cp_Name = ''pods_list'', cp_Arguments = ''{context:ctx-2}''\<rparr>)) = [''ctx-2'']"
    "snd (goSdkHandler exampleHandlerEnv ?s ''pods_list'' exampleContext
             (Some \<lparr>cp_Name = ''pods_list'', cp_Arguments = ''{}''\<rparr>)) = [''ctx-1'']"
    "snd (goSdkHandler exampleHandlerEnv ?s ''pods_list'' exampleContext
             (Some \<lparr>cp_Name = ''pods_list'', cp_Arguments = ''{context:7}''\<rparr>)) = [''ctx-1'']"
    using goSdkHandler_target
        [where env = exampleHandlerEnv and s = ?s and toolName = "''pods_list''"
           and ctx = exampleContext
           and params = "\<lparr>cp_Name = ''pods_list'', cp_Arguments = ''{context:ctx-2}''\<rparr>"
           and args = "[''context'' \<mapsto> AnyString ''ctx-2'']" and v = "''ctx-2''"]
      goSdkHandler_target
        [where env = exampleHandlerEnv and s = ?s and toolName = "''pods_list''"
           and ctx = exampleContext
           and params = "\<lparr>cp_Name = ''pods_list'', cp_Arguments = ''{}''\<rparr>"
           and args = "Map.empty"]
      goSdkHandler_target
        [where env = exampleHandlerEnv and s = ?s and toolName = "''pods_list''"
           and ctx = exampleContext
           and params = "\<lparr>cp_Name = ''pods_list'', cp_Arguments = ''{context:7}''\<rparr>"
           and args = "[''context'' \<mapsto> AnyOther 7]" and x = 7]
      u n
    by simp_all
  show ?thesis
    using t r [of "''{context:ctx-2}''"] r [of "''{}''"] r [of "''{context:7}''"] u
    by (simp add: prod_eq_iff GetString_def)
qed

text \<open>
  C6 as stated fails for an empty parameter: a call whose arguments hold the empty string
  under the target parameter name asks for the derived client of the empty target, not of
  the default target \<open>ctx-1\<close>.
\<close>

theorem goSdkHandler_empty_target_counterexample:
  "snd (goSdkHandler exampleHandlerEnv (exampleServer0\<lparr>srv_p := exampleKubeconfigProvider\<rparr>)
       ''pods_list'' exampleContext (Some \<lparr>cp_Name = ''pods_list'', cp_Arguments = ''{context:}''\<rparr>))
     = [[]] \<and>
   GetDefaultTarget (srv_p (exampleServer0\<lparr>srv_p := exampleKubeconfigProvider\<rparr>)) = ''ctx-1''"
  by (simp add: goSdkHandler_def GoSdkToolCallRequestToToolCallRequest_def
        GoSdkToolCallParamsToToolCallRequest_def handlerCluster_def GetString_def Let_def
        exampleHandlerEnv_def exampleKubeconfigProvider_def split: sum.splits prod.splits)

subsection \<open>Token exchange\<close>

lemmas tokenexchange_consts =
  GrantTypeTokenExchange_def TokenTypeAccessToken_def FormKeyGrantType_def
  FormKeySubjectToken_def FormKeySubjectTokenType_def FormKeySubjectIssuer_def
  FormKeyAudience_def FormKeyClientID_def FormKeyClientSecret_def FormKeyScope_def
  FormKeyRequestedTokenType_def HeaderContentType_def HeaderAuthorization_def
  ContentTypeXWWWFormUrlEncoded_def AuthStyleParams_def AuthStyleHeader_def

lemma HasPrefix_append: "HasPrefix (s @ b) s"
  by (simp add: HasPrefix_def)

lemma Contains_prefix: "Contains (s @ b) s"
proof (cases "s @ b")
  case Nil
  then show ?thesis by simp
next
  case (Cons c cs)
  have "HasPrefix (c # cs) s" using HasPrefix_append [of s b] Cons by simp
  then show ?thesis using Cons by simp
qed

lemma Contains_append: "Contains (a @ s @ b) s"
proof (induction a)
  case Nil
  show ?case using Contains_prefix by simp
next
  case (Cons x a)
  then show ?case by simp
qed

lemma Contains_append_right: "Contains (a @ s) s"
  using Contains_append [of a s "[]"] by simp

lemma Contains_appendL: "Contains s t \<Longrightarrow> Contains (a @ s) t"
  by (induction a) simp_all

lemma Join_contains: "x \<in> set xs \<Longrightarrow> Contains (Join xs sep) x"
proof (induction xs sep rule: Join.induct)
  case (1 sep)
  then show ?case by simp
next
  case (2 y sep)
  then show ?case using Contains_prefix [of x "[]"] by simp
next
  case (3 y z ys sep)
  show ?case
  proof (cases "x = y")
    case True
    then show ?thesis using Contains_prefix [of x "sep @ Join (z # ys) sep"] by simp
  next
    case False
    with 3 have "Contains (Join (z # ys) sep) x" by simp
    then have "Contains ((y @ sep) @ Join (z # ys) sep) x" by (rule Contains_appendL)
    then show ?thesis by simp
  qed
qed

lemma Encode_contains:
  assumes "map_of data k = Some vs" and "x \<in> set vs"
  shows "bodyHas (Encode data) k x"
proof -
  have "(k, vs) \<in> set (sort_key fst data)"
    using assms(1) by (simp add: map_of_SomeD)
  then have "QueryEscape k @ ''='' @ QueryEscape x \<in>
      set (concat (map (\<lambda>(k, vs). map (\<lambda>x. QueryEscape k @ ''='' @ QueryEscape x) vs)
                       (sort_key fst data)))"
    using assms(2) by force
  then show ?thesis unfolding bodyHas_def Encode_def by (rule Join_contains)
qed

lemma formHas_Encode:
  "Body r = Encode data \<Longrightarrow> map_of data k = Some [x] \<Longrightarrow> formHas r data k x"
  using Encode_contains [of data k "[x]" x] by (simp add: formHas_def)

lemma map_of_Values_Set:
  "map_of (Values_Set v k x) k' = (if k' = k then Some [x] else map_of v k')"
  by (simp add: Values_Set_def update_conv')

lemma rfc8693_data_lookup:
  "map_of (rfc8693_data cfg tok) ''grant_type'' =
     Some [''urn:ietf:params:oauth:grant-type:token-exchange'']"
  "map_of (rfc8693_data cfg tok) ''subject_token'' = Some [tok]"
  "map_of (rfc8693_data cfg tok) ''subject_token_type'' = Some [SubjectTokenType cfg]"
  "map_of (rfc8693_data cfg tok) ''audience'' = Some [Audience cfg]"
  "map_of (rfc8693_data cfg tok) ''requested_token_type'' =
     Some [''urn:ietf:params:oauth:token-type:access_token'']"
  "map_of (rfc8693_data cfg tok) ''subject_issuer'' = None"
  "map_of (rfc8693_data cfg tok) ''client_id'' = None"
  "map_of (rfc8693_data cfg tok) ''client_secret'' = None"
  by (simp_all add: rfc8693_data_def Let_def map_of_Values_Set tokenexchange_consts)

lemma keycloakV1_data_lookup:
  "map_of (keycloakV1_data cfg tok) ''grant_type'' =
     Some [''urn:ietf:params:oauth:grant-type:token-exchange'']"
  "map_of (keycloakV1_data cfg tok) ''subject_token'' = Some [tok]"
  "map_of (keycloakV1_data cfg tok) ''subject_token_type'' = Some [SubjectTokenType cfg]"
  "map_of (keycloakV1_data cfg tok) ''audience'' = Some [Audience cfg]"
  "map_of (keycloakV1_data cfg tok) ''requested_token_type'' = None"
  "map_of (keycloakV1_data cfg tok) ''subject_issuer'' =
     (if SubjectIssuer cfg = [] then None else Some [SubjectIssuer cfg])"
  "map_of (keycloakV1_data cfg tok) ''client_id'' = None"
  "map_of (keycloakV1_data cfg tok) ''client_secret'' = None"
  by (simp_all add: keycloakV1_data_def Let_def map_of_Values_Set tokenexchange_consts)

lemma injectClientAuth_keeps:
  assumes "k \<noteq> ''client_id''" and "k \<noteq> ''client_secret''"
  shows "map_of (fst (injectClientAuth cfg data hdr)) k = map_of data k"
  using assms
  by (simp add: injectClientAuth_def Let_def map_of_Values_Set tokenexchange_consts)

lemma injectClientAuth_client:
  "injectClientAuth (cfg\<lparr>client := x\<rparr>) data hdr = injectClientAuth cfg data hdr"
  by (simp add: injectClientAuth_def Let_def)

lemma Values_Set_nil: "Values_Set [] k x = [(k, [x])]"
  by (simp add: Values_Set_def)

lemma request_Header_nil:
  "Header (newTokenExchangeRequest u data []) =
     [(''Content-Type'', [''application/x-www-form-urlencoded''])]"
  by (simp add: newTokenExchangeRequest_def Values_Set_def tokenexchange_consts)

lemma request_Header_auth:
  "Header (newTokenExchangeRequest u data [(''Authorization'', [x])]) =
     [(''Content-Type'', [''application/x-www-form-urlencoded'']), (''Authorization'', [x])]"
  by (simp add: newTokenExchangeRequest_def Values_Set_def Values_Add_def tokenexchange_consts)

lemma request_fields:
  "Method (newTokenExchangeRequest u data headers) = ''POST''"
  "URL (newTokenExchangeRequest u data headers) = u"
  "Body (newTokenExchangeRequest u data headers) = Encode data"
  by (simp_all add: newTokenExchangeRequest_def)

lemma injectClientAuth_headers:
  "snd (injectClientAuth cfg data []) = [] \<or>
   (ClientID cfg \<noteq> [] \<and> AuthStyle cfg = ''header'' \<and>
    snd (injectClientAuth cfg data []) =
      [(''Authorization'', [''Basic '' @ EncodeToString (ClientID cfg @ '':'' @ ClientSecret cfg)])])"
  by (simp add: injectClientAuth_def Let_def Values_Set_nil tokenexchange_consts)

lemma request_ContentType:
  "map_of (Header (newTokenExchangeRequest u d (snd (injectClientAuth cfg data []))))
     ''Content-Type'' = Some [''application/x-www-form-urlencoded'']"
  using injectClientAuth_headers [of cfg data]
  by (auto simp add: request_Header_nil request_Header_auth)

lemma injectClientAuth_sent:
  assumes "map_of data ''client_id'' = None" and "map_of data ''client_secret'' = None"
    and "r = newTokenExchangeRequest u (fst (injectClientAuth cfg data []))
               (snd (injectClientAuth cfg data []))"
  shows "clientAuthSent cfg r (fst (injectClientAuth cfg data []))"
proof -
  have body: "Body r = Encode (fst (injectClientAuth cfg data []))"
    using assms(3) by (simp add: request_fields)
  show ?thesis
  proof (cases "ClientID cfg = []")
    case True
    then show ?thesis using assms
      by (simp add: clientAuthSent_def injectClientAuth_def request_Header_nil)
  next
    case False
    note id = this
    show ?thesis
    proof (cases "AuthStyle cfg = ''header''")
      case True
      then show ?thesis using id assms
        by (simp add: clientAuthSent_def injectClientAuth_def request_Header_auth
              Values_Set_nil tokenexchange_consts)
    next
      case False
      have h: "map_of (Header r) ''Authorization'' = None"
        using id False assms(3)
        by (simp add: injectClientAuth_def Let_def request_Header_nil tokenexchange_consts)
      have i: "map_of (fst (injectClientAuth cfg data [])) ''client_id'' = Some [ClientID cfg]"
        using id False
        by (simp add: injectClientAuth_def Let_def map_of_Values_Set tokenexchange_consts)
      have s: "map_of (fst (injectClientAuth cfg data [])) ''client_secret'' =
                 (if ClientSecret cfg = [] then None else Some [ClientSecret cfg])"
        using id False assms(2)
        by (simp add: injectClientAuth_def Let_def map_of_Values_Set tokenexchange_consts)
      show ?thesis using id False h s formHas_Encode [OF body i] formHas_Encode [OF body]
        by (simp add: clientAuthSent_def)
    qed
  qed
qed

lemma HTTPCLient_config:
  "HTTPCLient w c = Inr (cl, c') \<Longrightarrow> c' = c\<lparr>client := Some cl\<rparr>"
  by (auto simp add: HTTPCLient_def Let_def split: option.splits sum.splits if_splits)

lemma doTokenExchange_sent:
  "doTokenExchange w cl u data headers = (res, reqs) \<Longrightarrow> r \<in> set reqs \<Longrightarrow>
   r = newTokenExchangeRequest u data headers"
  by (auto simp add: doTokenExchange_def Let_def split: option.splits sum.splits if_splits)

lemma exchangeWith_sent:
  assumes "r \<in> set (snd (snd (exchangeWith w cfg data0)))"
  shows "r = newTokenExchangeRequest (TokenURL cfg)
                  (fst (injectClientAuth cfg data0 []))
                  (snd (injectClientAuth cfg data0 []))"
proof (cases "HTTPCLient w cfg")
  case (Inl err)
  with assms show ?thesis by (simp add: exchangeWith_def)
next
  case (Inr p)
  obtain cl cfg' where p: "p = (cl, cfg')" by (cases p)
  have cfg': "cfg' = cfg\<lparr>client := Some cl\<rparr>"
    using Inr p HTTPCLient_config by simp
  obtain data headers where inj: "injectClientAuth cfg data0 [] = (data, headers)"
    by (cases "injectClientAuth cfg data0 []")
  obtain res reqs where ex: "doTokenExchange w cl (TokenURL cfg) data headers = (res, reqs)"
    by (cases "doTokenExchange w cl (TokenURL cfg) data headers")
  have "snd (snd (exchangeWith w cfg data0)) = reqs"
    using Inr p cfg' inj ex by (simp add: exchangeWith_def injectClientAuth_client)
  with assms have "r \<in> set reqs" by simp
  with ex have "r = newTokenExchangeRequest (TokenURL cfg) data headers"
    by (rule doTokenExchange_sent)
  with inj show ?thesis by simp
qed

lemma exchangeWith_common:
  assumes r: "r \<in> set (snd (snd (exchangeWith w cfg data0)))"
    and d0: "map_of data0 ''grant_type'' =
               Some [''urn:ietf:params:oauth:grant-type:token-exchange'']"
            "map_of data0 ''subject_token'' = Some [tok]"
            "map_of data0 ''subject_token_type'' = Some [SubjectTokenType cfg]"
            "map_of data0 ''audience'' = Some [Audience cfg]"
  shows "exchangeFormCommon cfg tok r (fst (injectClientAuth cfg data0 []))"
proof -
  let ?d = "fst (injectClientAuth cfg data0 [])"
  note req = exchangeWith_sent [OF r]
  have body: "Body r = Encode ?d" using req by (simp add: request_fields)
  have m: "Method r = ''POST'' \<and> URL r = TokenURL cfg" using req by (simp add: request_fields)
  have ct: "map_of (Header r) ''Content-Type'' = Some [''application/x-www-form-urlencoded'']"
    using req request_ContentType by simp
  have "formHas r ?d ''grant_type'' ''urn:ietf:params:oauth:grant-type:token-exchange''"
    using d0(1) by (intro formHas_Encode [OF body]) (simp add: injectClientAuth_keeps)
  moreover have "formHas r ?d ''subject_token'' tok"
    using d0(2) by (intro formHas_Encode [OF body]) (simp add: injectClientAuth_keeps)
  moreover have "formHas r ?d ''subject_token_type'' (SubjectTokenType cfg)"
    using d0(3) by (intro formHas_Encode [OF body]) (simp add: injectClientAuth_keeps)
  moreover have "formHas r ?d ''audience'' (Audience cfg)"
    using d0(4) by (intro formHas_Encode [OF body]) (simp add: injectClientAuth_keeps)
  ultimately show ?thesis using body m ct by (simp add: exchangeFormCommon_def)
qed

lemma exchangeWith_sends_one:
  assumes "HTTPCLient w cfg = Inr (cl, cfg')" and "NewRequestErr w (TokenURL cfg) = None"
  shows "length (snd (snd (exchangeWith w cfg data0))) = 1"
proof -
  have c: "cfg' = cfg\<lparr>client := Some cl\<rparr>"
    using assms(1) by (rule HTTPCLient_config)
  obtain data headers where i: "injectClientAuth cfg' data0 [] = (data, headers)"
    by (cases "injectClientAuth cfg' data0 []")
  have "length (snd (doTokenExchange w cl (TokenURL cfg) data headers)) = 1"
    using assms(2)
    by (simp add: doTokenExchange_def Let_def split: sum.splits)
  then show ?thesis
    using assms(1) c i
    by (auto simp add: exchangeWith_def split: prod.splits)
qed

lemma exchange_requests_form:
  "(\<forall>r \<in> set (snd (snd (rfc8693_Exchange w cfg tok))).
      \<exists>data. exchangeFormCommon cfg tok r data \<and>
         formHas r data ''requested_token_type''
           ''urn:ietf:params:oauth:token-type:access_token'' \<and>
         map_of data ''subject_issuer'' = None \<and>
         clientAuthSent cfg r data) \<and>
   (\<forall>r \<in> set (snd (snd (keycloakV1_Exchange w cfg tok))).
      \<exists>data. exchangeFormCommon cfg tok r data \<and>
         map_of data ''requested_token_type'' = None \<and>
         (if SubjectIssuer cfg = [] then map_of data ''subject_issuer'' = None
          else formHas r data ''subject_issuer'' (SubjectIssuer cfg)) \<and>
         clientAuthSent cfg r data)"
proof (rule conjI; rule ballI)
  fix r assume "r \<in> set (snd (snd (rfc8693_Exchange w cfg tok)))"
  then have r: "r \<in> set (snd (snd (exchangeWith w cfg (rfc8693_data cfg tok))))"
    by (simp add: rfc8693_Exchange_def)
  let ?d = "fst (injectClientAuth cfg (rfc8693_data cfg tok) [])"
  note req = exchangeWith_sent [OF r]
  have body: "Body r = Encode ?d" using req by (simp add: request_fields)
  have c: "exchangeFormCommon cfg tok r ?d"
    using r rfc8693_data_lookup(1-4) by (rule exchangeWith_common)
  have a: "clientAuthSent cfg r ?d"
    using rfc8693_data_lookup(7,8) req by (rule injectClientAuth_sent)
  have t: "formHas r ?d ''requested_token_type'' ''urn:ietf:params:oauth:token-type:access_token''"
    by (intro formHas_Encode [OF body]) (simp add: injectClientAuth_keeps rfc8693_data_lookup)
  have i: "map_of ?d ''subject_issuer'' = None"
    by (simp add: injectClientAuth_keeps rfc8693_data_lookup)
  show "\<exists>data. exchangeFormCommon cfg tok r data \<and>
         formHas r data ''requested_token_type''
           ''urn:ietf:params:oauth:token-type:access_token'' \<and>
         map_of data ''subject_issuer'' = None \<and>
         clientAuthSent cfg r data"
    using c a t i by blast
next
  fix r assume "r \<in> set (snd (snd (keycloakV1_Exchange w cfg tok)))"
  then have r: "r \<in> set (snd (snd (exchangeWith w cfg (keycloakV1_data cfg tok))))"
    by (simp add: keycloakV1_Exchange_def)
  let ?d = "fst (injectClientAuth cfg (keycloakV1_data cfg tok) [])"
  note req = exchangeWith_sent [OF r]
  have body: "Body r = Encode ?d" using req by (simp add: request_fields)
  have c: "exchangeFormCommon cfg tok r ?d"
    using r keycloakV1_data_lookup(1-4) by (rule exchangeWith_common)
  have a: "clientAuthSent cfg r ?d"
    using keycloakV1_data_lookup(7,8) req by (rule injectClientAuth_sent)
  have t: "map_of ?d ''requested_token_type'' = None"
    by (simp add: injectClientAuth_keeps keycloakV1_data_lookup)
  have i0: "map_of ?d ''subject_issuer'' =
      (if SubjectIssuer cfg = [] then None else Some [SubjectIssuer cfg])"
    by (simp add: injectClientAuth_keeps keycloakV1_data_lookup)
  have i: "if SubjectIssuer cfg = [] then map_of ?d ''subject_issuer'' = None
          else formHas r ?d ''subject_issuer'' (SubjectIssuer cfg)"
    using i0 formHas_Encode [OF body, of "''subject_issuer''" "SubjectIssuer cfg"] by simp
  show "\<exists>data. exchangeFormCommon cfg tok r data \<and>
         map_of data ''requested_token_type'' = None \<and>
         (if SubjectIssuer cfg = [] then map_of data ''subject_issuer'' = None
          else formHas r data ''subject_issuer'' (SubjectIssuer cfg)) \<and>
         clientAuthSent cfg r data"
    using c a t i by blast
qed



text \<open>
  C5 (as the code has it). Every request either exchanger sends is a POST to the
  configured token URL with content type \<open>application/x-www-form-urlencoded\<close>, whose body
  encodes a form holding the grant type, the subject token, the configured subject token
  type and the audience. The RFC 8693 form also holds
  \<open>requested_token_type=urn:ietf:params:oauth:token-type:access_token\<close> and no
  \<open>subject_issuer\<close>; the Keycloak form holds no \<open>requested_token_type\<close>, and
  \<open>subject_issuer\<close> exactly when one is configured. Client credentials are sent only
  when the client id is not empty: as a Basic \<open>Authorization\<close> header when the style is
  \<open>header\<close>, and otherwise (\<open>params\<close> or empty included) as \<open>client_id\<close> in the form,
  with \<open>client_secret\<close> when the secret is not empty. Exactly one request is sent
  when the HTTP client can be built and the token URL is accepted.
\<close>

theorem token_exchange_requests:
  "(\<forall>r \<in> set (snd (snd (rfc8693_Exchange w cfg tok))).
      \<exists>data. exchangeFormCommon cfg tok r data \<and>
         formHas r data ''requested_token_type''
           ''urn:ietf:params:oauth:token-type:access_token'' \<and>
         map_of data ''subject_issuer'' = None \<and>
         clientAuthSent cfg r data) \<and>
   (\<forall>r \<in> set (snd (snd (keycloakV1_Exchange w cfg tok))).
      \<exists>data. exchangeFormCommon cfg tok r data \<and>
         map_of data ''requested_token_type'' = None \<and>
         (if SubjectIssuer cfg = [] then map_of data ''subject_issuer'' = None
          else formHas r data ''subject_issuer'' (SubjectIssuer cfg)) \<and>
         clientAuthSent cfg r data) \<and>
   (HTTPCLient w cfg = Inr (cl, cfg') \<and> NewRequestErr w (TokenURL cfg) = None \<longrightarrow>
      length (snd (snd (rfc8693_Exchange w cfg tok))) = 1 \<and>
      length (snd (snd (keycloakV1_Exchange w cfg tok))) = 1)"
proof -
  have "length (snd (snd (rfc8693_Exchange w cfg tok))) = 1 \<and>
      length (snd (snd (keycloakV1_Exchange w cfg tok))) = 1"
    if "HTTPCLient w cfg = Inr (cl, cfg') \<and> NewRequestErr w (TokenURL cfg) = None"
    using that exchangeWith_sends_one [of w cfg cl cfg']
    by (simp add: rfc8693_Exchange_def keycloakV1_Exchange_def)
  then show ?thesis
    using exchange_requests_form [of w cfg tok] by blast
qed

theorem token_exchange_requests_witness:
  "snd (snd (rfc8693_Exchange exampleWorld exampleExchangeConfig ''T'')) = [exampleRfcRequest] \<and>
   (\<exists>data. exchangeFormCommon exampleExchangeConfig ''T'' exampleRfcRequest data \<and>
      formHas exampleRfcRequest data ''requested_token_type''
        ''urn:ietf:params:oauth:token-type:access_token'' \<and>
      map_of data ''subject_issuer'' = None \<and>
      clientAuthSent exampleExchangeConfig exampleRfcRequest data) \<and>
   snd (snd (keycloakV1_Exchange exampleWorld exampleExchangeConfig ''T'')) =
     [exampleKeycloakRequest] \<and>
   (\<exists>data. exchangeFormCommon exampleExchangeConfig ''T'' exampleKeycloakRequest data \<and>
      map_of data ''requested_token_type'' = None \<and>
      map_of data ''subject_issuer'' = None \<and>
      clientAuthSent exampleExchangeConfig exampleKeycloakRequest data) \<and>
   HTTPCLient exampleWorld exampleExchangeConfig =
     Inr (exampleClient, exampleExchangeConfig\<lparr>client := Some exampleClient\<rparr>) \<and>
   NewRequestErr exampleWorld (TokenURL exampleExchangeConfig) = None"
proof -
  have r: "snd (snd (rfc8693_Exchange exampleWorld exampleExchangeConfig ''T'')) =
      [exampleRfcRequest]"
    by code_simp
  have k: "snd (snd (keycloakV1_Exchange exampleWorld exampleExchangeConfig ''T'')) =
      [exampleKeycloakRequest]"
    by code_simp
  have i: "SubjectIssuer exampleExchangeConfig = []"
    by (simp add: exampleExchangeConfig_def)
  have h: "HTTPCLient exampleWorld exampleExchangeConfig =
     Inr (exampleClient, exampleExchangeConfig\<lparr>client := Some exampleClient\<rparr>)"
    by (simp add: HTTPCLient_def exampleExchangeConfig_def exampleClient_def Second_def Let_def)
  have n: "NewRequestErr exampleWorld (TokenURL exampleExchangeConfig) = None"
    by (simp add: exampleWorld_def)
  show ?thesis
    using token_exchange_requests
      [of exampleWorld exampleExchangeConfig "''T''" exampleClient
          "exampleExchangeConfig\<lparr>client := Some exampleClient\<rparr>"] r k i h n
    by simp
qed

text \<open>
  C5 as stated fails where the client id is empty: with the header style and a client
  secret configured, the request carries neither an \<open>Authorization\<close> header nor any
  credential in its body.
\<close>

theorem token_exchange_no_client_id_counterexample:
  "snd (snd (rfc8693_Exchange exampleWorld
      (exampleExchangeConfig\<lparr>ClientID := [], AuthStyle := ''header''\<rparr>) ''T'')) =
     [exampleNoClientIdRequest] \<and>
   map_of (Header exampleNoClientIdRequest) ''Authorization'' = None \<and>
   \<not> Contains (Body exampleNoClientIdRequest) ''client''"
  by code_simp








subsection \<open>Authorization middleware\<close>

lemma write401_unauthorized: "unauthorizedWith (Responded (write401 www t m)) t"
proof -
  have "Values_Get (rw_Header (write401 www t m)) ''WWW-Authenticate'' =
      (www @ '', '') @ (''error='' @ quoted t)"
    by (simp add: write401_def http_Error_def Values_Get_def Values_Set_def update_conv')
  moreover have "Contains ((www @ '', '') @ (''error='' @ quoted t)) (''error='' @ quoted t)"
    by (rule Contains_append_right)
  ultimately show ?thesis
    by (simp add: unauthorizedWith_def write401_def http_Error_def)
qed

text \<open>
  C4. With require-oauth enabled, a request for \<open>/healthz\<close> or a well-known endpoint is
  handed to the next handler as it is; any other request without a bearer
  \<open>Authorization\<close> header is answered 401 with \<open>error="missing_token"\<close>; any other
  request whose bearer token fails parsing, offline validation or provider verification
  is answered 401 with \<open>error="invalid_token"\<close>. With require-oauth disabled every
  request is handed to the next handler as it is.
\<close>

theorem AuthorizationMiddleware_cases:
  "(bypassed r \<longrightarrow> AuthorizationMiddleware lib cfg provider r = Next r) \<and>
   (\<not> RequireOAuth cfg \<longrightarrow> AuthorizationMiddleware lib cfg provider r = Next r) \<and>
   (RequireOAuth cfg \<and> \<not> bypassed r \<and>
    \<not> HasPrefix (Values_Get (req_Header r) ''Authorization'') ''Bearer '' \<longrightarrow>
      unauthorizedWith (AuthorizationMiddleware lib cfg provider r) ''missing_token'') \<and>
   (RequireOAuth cfg \<and> \<not> bypassed r \<and>
    HasPrefix (Values_Get (req_Header r) ''Authorization'') ''Bearer '' \<and>
    token = TrimPrefix (Values_Get (req_Header r) ''Authorization'') ''Bearer '' \<and>
    (fst (ParseJWTClaims lib token) = None \<or> snd (ParseJWTClaims lib token) \<noteq> None \<or>
     (fst (ParseJWTClaims lib token) = Some claims \<and>
      (ValidateOffline lib claims (OAuthAudience cfg) \<noteq> None \<or>
       ValidateWithProvider lib claims (OAuthAudience cfg) provider \<noteq> None))) \<longrightarrow>
      unauthorizedWith (AuthorizationMiddleware lib cfg provider r) ''invalid_token'')"
proof (intro conjI impI)
  assume "bypassed r"
  then show "AuthorizationMiddleware lib cfg provider r = Next r"
    by (simp add: AuthorizationMiddleware_def bypassed_def healthEndpoint_def)
next
  assume "\<not> RequireOAuth cfg"
  then show "AuthorizationMiddleware lib cfg provider r = Next r"
    by (simp add: AuthorizationMiddleware_def)
next
  assume "RequireOAuth cfg \<and> \<not> bypassed r \<and>
    \<not> HasPrefix (Values_Get (req_Header r) ''Authorization'') ''Bearer ''"
  then show "unauthorizedWith (AuthorizationMiddleware lib cfg provider r) ''missing_token''"
    using write401_unauthorized
    by (simp add: AuthorizationMiddleware_def bypassed_def healthEndpoint_def Let_def)
next
  assume a: "RequireOAuth cfg \<and> \<not> bypassed r \<and>
    HasPrefix (Values_Get (req_Header r) ''Authorization'') ''Bearer '' \<and>
    token = TrimPrefix (Values_Get (req_Header r) ''Authorization'') ''Bearer '' \<and>
    (fst (ParseJWTClaims lib token) = None \<or> snd (ParseJWTClaims lib token) \<noteq> None \<or>
     (fst (ParseJWTClaims lib token) = Some claims \<and>
      (ValidateOffline lib claims (OAuthAudience cfg) \<noteq> None \<or>
       ValidateWithProvider lib claims (OAuthAudience cfg) provider \<noteq> None)))"
  then have "tokenError lib cfg provider token \<noteq> None"
    by (auto simp add: tokenError_def split: prod.splits option.splits)
  then obtain err where "tokenError lib cfg provider token = Some err" by auto
  moreover have "Values_Get (req_Header r) ''Authorization'' \<noteq> []"
    using a by (auto simp add: HasPrefix_def)
  ultimately show "unauthorizedWith (AuthorizationMiddleware lib cfg provider r) ''invalid_token''"
    using a write401_unauthorized
    by (simp add: AuthorizationMiddleware_def bypassed_def healthEndpoint_def Let_def)
qed


theorem AuthorizationMiddleware_cases_witness:
  "AuthorizationMiddleware exampleJwtLib (zeroConfig\<lparr>RequireOAuth := True\<rparr>) None
     (exampleHttpRequest ''/healthz'' []) = Next (exampleHttpRequest ''/healthz'' []) \<and>
   AuthorizationMiddleware exampleJwtLib zeroConfig None (exampleHttpRequest ''/mcp'' []) =
     Next (exampleHttpRequest ''/mcp'' []) \<and>
   unauthorizedWith (AuthorizationMiddleware exampleJwtLib (zeroConfig\<lparr>RequireOAuth := True\<rparr>)
     None (exampleHttpRequest ''/mcp'' ''Basic YWxhZGRpbjpvcGVuc2VzYW1l'')) ''missing_token'' \<and>
   unauthorizedWith (AuthorizationMiddleware exampleJwtLib (zeroConfig\<lparr>RequireOAuth := True\<rparr>)
     None (exampleHttpRequest ''/mcp'' ''Bearer garbage'')) ''invalid_token'' \<and>
   unauthorizedWith (AuthorizationMiddleware exampleJwtLib (zeroConfig\<lparr>RequireOAuth := True\<rparr>)
     None (exampleHttpRequest ''/mcp'' ''Bearer expired'')) ''invalid_token'' \<and>
   unauthorizedWith (AuthorizationMiddleware exampleJwtLib (zeroConfig\<lparr>RequireOAuth := True\<rparr>)
     (Some ()) (exampleHttpRequest ''/mcp'' ''Bearer good'')) ''invalid_token''"
proof -
  let ?cfg = "zeroConfig\<lparr>RequireOAuth := True\<rparr>"
  have c: "RequireOAuth ?cfg" "\<not> RequireOAuth zeroConfig" "OAuthAudience ?cfg = []"
    by (simp_all add: zeroConfig_def)
  have b: "bypassed (exampleHttpRequest ''/healthz'' [])"
    "\<And>a. \<not> bypassed (exampleHttpRequest ''/mcp'' a)"
    by (simp_all add: bypassed_def exampleHttpRequest_def WellKnownEndpoints_def)
  have h: "\<And>p a. Values_Get (req_Header (exampleHttpRequest p a)) ''Authorization'' = a"
    by (simp add: exampleHttpRequest_def Values_Get_def)
  have p: "\<not> HasPrefix ''Basic YWxhZGRpbjpvcGVuc2VzYW1l'' ''Bearer ''"
    "HasPrefix ''Bearer garbage'' ''Bearer ''" "TrimPrefix ''Bearer garbage'' ''Bearer '' = ''garbage''"
    "HasPrefix ''Bearer expired'' ''Bearer ''" "TrimPrefix ''Bearer expired'' ''Bearer '' = ''expired''"
    "HasPrefix ''Bearer good'' ''Bearer ''" "TrimPrefix ''Bearer good'' ''Bearer '' = ''good''"
    by (simp_all add: HasPrefix_def TrimPrefix_def)
  have j: "fst (ParseJWTClaims exampleJwtLib ''garbage'') = None"
    "fst (ParseJWTClaims exampleJwtLib ''expired'') =
       Some \<lparr>Claims = 0, jwt_Token = ''expired'', Scope = ''read write''\<rparr>"
    "fst (ParseJWTClaims exampleJwtLib ''good'') =
       Some \<lparr>Claims = 1, jwt_Token = ''good'', Scope = ''read write''\<rparr>"
    by (simp_all add: ParseJWTClaims_def exampleJwtLib_def)
  have v: "ValidateOffline exampleJwtLib
             \<lparr>Claims = 0, jwt_Token = ''expired'', Scope = ''read write''\<rparr> [] \<noteq> None"
    "ValidateWithProvider exampleJwtLib
             \<lparr>Claims = 1, jwt_Token = ''good'', Scope = ''read write''\<rparr> [] (Some ()) \<noteq> None"
    by (simp_all add: ValidateOffline_def ValidateWithProvider_def exampleJwtLib_def)
  show ?thesis
    using AuthorizationMiddleware_cases
        [of "exampleHttpRequest ''/healthz'' []" exampleJwtLib ?cfg None]
      AuthorizationMiddleware_cases
        [of "exampleHttpRequest ''/mcp'' []" exampleJwtLib zeroConfig None]
      AuthorizationMiddleware_cases
        [of "exampleHttpRequest ''/mcp'' ''Basic YWxhZGRpbjpvcGVuc2VzYW1l''" exampleJwtLib ?cfg None]
      AuthorizationMiddleware_cases
        [of "exampleHttpRequest ''/mcp'' ''Bearer garbage''" exampleJwtLib ?cfg None "''garbage''"]
      AuthorizationMiddleware_cases
        [of "exampleHttpRequest ''/mcp'' ''Bearer expired''" exampleJwtLib ?cfg None "''expired''"
            "\<lparr>Claims = 0, jwt_Token = ''expired'', Scope = ''read write''\<rparr>"]
      AuthorizationMiddleware_cases
        [of "exampleHttpRequest ''/mcp'' ''Bearer good''" exampleJwtLib ?cfg "Some ()" "''good''"
            "\<lparr>Claims = 1, jwt_Token = ''good'', Scope = ''read write''\<rparr>"]
      c b h p j v
    by simp
qed

subsection \<open>Token exchange on the request context\<close>

lemma sts_changes:
  assumes "stsExchangeTokenInContext sts httpClient token ctx OAuthAuthorizationHeader \<noteq>
             ctx OAuthAuthorizationHeader"
  shows "\<exists>ctx1 tok. ExternalAccountTokenExchange sts ctx1
            \<lparr>AccessToken = token, TokenType = ''Bearer'', RefreshToken = [], Expiry = None\<rparr> =
              Inr tok \<and>
           stsExchangeTokenInContext sts httpClient token ctx OAuthAuthorizationHeader =
             Some (CtxString (''Bearer '' @ AccessToken tok))"
proof -
  let ?ctx1 = "case httpClient of Some cl \<Rightarrow> WithValue ctx OAuth2HTTPClient (CtxClient cl)
               | None \<Rightarrow> ctx"
  let ?t = "\<lparr>AccessToken = token, TokenType = ''Bearer'', RefreshToken = [], Expiry = None\<rparr>"
  have k: "?ctx1 OAuthAuthorizationHeader = ctx OAuthAuthorizationHeader"
    by (cases httpClient) (simp_all add: WithValue_def)
  show ?thesis
  proof (cases "ExternalAccountTokenExchange sts ?ctx1 ?t")
    case (Inl err)
    then have "stsExchangeTokenInContext sts httpClient token ctx OAuthAuthorizationHeader =
        ctx OAuthAuthorizationHeader"
      using k by (simp add: stsExchangeTokenInContext_def Let_def)
    with assms show ?thesis by simp
  next
    case (Inr tok)
    have "IsEnabled sts"
      using assms by (cases "IsEnabled sts") (simp_all add: stsExchangeTokenInContext_def)
    then have "stsExchangeTokenInContext sts httpClient token ctx OAuthAuthorizationHeader =
        Some (CtxString (''Bearer '' @ AccessToken tok))"
      using Inr by (simp add: stsExchangeTokenInContext_def Let_def WithValue_def)
    with Inr show ?thesis by blast
  qed
qed


text \<open>
  C3. When the context carries a bearer token, the provider has an exchange configuration
  for the target and the registry has the exchanger of its strategy, a failed exchange
  returns the context unchanged, so the original bearer token stays the
  \<open>Authorization\<close> value; a successful exchange returns the context with the
  \<open>Authorization\<close> value replaced by \<open>Bearer\<close> and the exchanged access token. In
  every case the \<open>Authorization\<close> value of the returned context differs from the one
  given only when an exchange, of the target or of the server, has succeeded, and it is
  then \<open>Bearer\<close> and the access token of that exchange.
\<close>

theorem ExchangeTokenInContext_per_target:
  "(ctx OAuthAuthorizationHeader = Some (CtxString auth) \<and> HasPrefix auth ''Bearer '' \<and>
    tep = Some p \<and> GetTokenExchangeConfig p target = Some exCfg \<and>
    GetTokenExchanger exchangers (GetTokenExchangeStrategy p) = Some exchanger \<and>
    exchanger ctx exCfg (TrimPrefix auth ''Bearer '') = Inl err \<longrightarrow>
      fst (ExchangeTokenInContext newSts exchangers ctx cfg oidcProvider httpClient tep target)
        = ctx \<and>
      fst (ExchangeTokenInContext newSts exchangers ctx cfg oidcProvider httpClient tep target)
        OAuthAuthorizationHeader = Some (CtxString auth)) \<and>
   (ctx OAuthAuthorizationHeader = Some (CtxString auth) \<and> HasPrefix auth ''Bearer '' \<and>
    tep = Some p \<and> GetTokenExchangeConfig p target = Some exCfg \<and>
    GetTokenExchanger exchangers (GetTokenExchangeStrategy p) = Some exchanger \<and>
    exchanger ctx exCfg (TrimPrefix auth ''Bearer '') = Inr exchanged \<longrightarrow>
      fst (ExchangeTokenInContext newSts exchangers ctx cfg oidcProvider httpClient tep target)
        = ctx(OAuthAuthorizationHeader \<mapsto> CtxString (''Bearer '' @ AccessToken exchanged))) \<and>
   (fst (ExchangeTokenInContext newSts exchangers ctx cfg oidcProvider httpClient tep target)
      OAuthAuthorizationHeader \<noteq> ctx OAuthAuthorizationHeader \<longrightarrow>
      (\<exists>tok. fst (ExchangeTokenInContext newSts exchangers ctx cfg oidcProvider httpClient tep
                    target) OAuthAuthorizationHeader =
                Some (CtxString (''Bearer '' @ AccessToken tok)) \<and>
             ((\<exists>a q c x. ctx OAuthAuthorizationHeader = Some (CtxString a) \<and> tep = Some q \<and>
                 GetTokenExchangeConfig q target = Some c \<and>
                 GetTokenExchanger exchangers (GetTokenExchangeStrategy q) = Some x \<and>
                 x ctx c (TrimPrefix a ''Bearer '') = Inr tok) \<or>
              (\<exists>ctx1 t. ExternalAccountTokenExchange (newSts cfg oidcProvider) ctx1 t =
                 Inr tok))))"
proof (intro conjI impI)
  assume "ctx OAuthAuthorizationHeader = Some (CtxString auth) \<and> HasPrefix auth ''Bearer '' \<and>
    tep = Some p \<and> GetTokenExchangeConfig p target = Some exCfg \<and>
    GetTokenExchanger exchangers (GetTokenExchangeStrategy p) = Some exchanger \<and>
    exchanger ctx exCfg (TrimPrefix auth ''Bearer '') = Inl err"
  then show
    "fst (ExchangeTokenInContext newSts exchangers ctx cfg oidcProvider httpClient tep target)
        = ctx"
    "fst (ExchangeTokenInContext newSts exchangers ctx cfg oidcProvider httpClient tep target)
        OAuthAuthorizationHeader = Some (CtxString auth)"
    by (simp_all add: ExchangeTokenInContext_def Let_def)
next
  assume "ctx OAuthAuthorizationHeader = Some (CtxString auth) \<and> HasPrefix auth ''Bearer '' \<and>
    tep = Some p \<and> GetTokenExchangeConfig p target = Some exCfg \<and>
    GetTokenExchanger exchangers (GetTokenExchangeStrategy p) = Some exchanger \<and>
    exchanger ctx exCfg (TrimPrefix auth ''Bearer '') = Inr exchanged"
  then show
    "fst (ExchangeTokenInContext newSts exchangers ctx cfg oidcProvider httpClient tep target)
        = ctx(OAuthAuthorizationHeader \<mapsto> CtxString (''Bearer '' @ AccessToken exchanged))"
    by (simp add: ExchangeTokenInContext_def Let_def WithValue_def)
next
  let ?r = "fst (ExchangeTokenInContext newSts exchangers ctx cfg oidcProvider httpClient tep
                   target)"
  assume changed: "?r OAuthAuthorizationHeader \<noteq> ctx OAuthAuthorizationHeader"
  let ?goal = "\<exists>tok. ?r OAuthAuthorizationHeader =
                Some (CtxString (''Bearer '' @ AccessToken tok)) \<and>
             ((\<exists>a q c x. ctx OAuthAuthorizationHeader = Some (CtxString a) \<and> tep = Some q \<and>
                 GetTokenExchangeConfig q target = Some c \<and>
                 GetTokenExchanger exchangers (GetTokenExchangeStrategy q) = Some x \<and>
                 x ctx c (TrimPrefix a ''Bearer '') = Inr tok) \<or>
              (\<exists>ctx1 t. ExternalAccountTokenExchange (newSts cfg oidcProvider) ctx1 t =
                 Inr tok))"
  obtain a where a: "ctx OAuthAuthorizationHeader = Some (CtxString a)"
    and b: "HasPrefix a ''Bearer ''"
    using changed
    by (auto simp add: ExchangeTokenInContext_def split: option.splits CtxValue.splits if_splits)
  let ?sts = "stsExchangeTokenInContext (newSts cfg oidcProvider) httpClient
                (TrimPrefix a ''Bearer '') ctx"
  have sts: ?goal if "?r = ?sts"
  proof -
    from that changed have "?sts OAuthAuthorizationHeader \<noteq> ctx OAuthAuthorizationHeader"
      by simp
    from sts_changes [OF this] that show ?thesis by auto
  qed
  show ?goal
  proof (cases tep)
    case None
    then have "?r = ?sts" using a b by (simp add: ExchangeTokenInContext_def Let_def)
    then show ?thesis by (rule sts)
  next
    case (Some q)
    show ?thesis
    proof (cases "GetTokenExchangeConfig q target")
      case None
      then have "?r = ?sts" using a b Some by (simp add: ExchangeTokenInContext_def Let_def)
      then show ?thesis by (rule sts)
    next
      case c: (Some c)
      show ?thesis
      proof (cases "GetTokenExchanger exchangers (GetTokenExchangeStrategy q)")
        case None
        then have "?r = ?sts" using a b Some c by (simp add: ExchangeTokenInContext_def Let_def)
        then show ?thesis by (rule sts)
      next
        case x: (Some x)
        show ?thesis
        proof (cases "x ctx c (TrimPrefix a ''Bearer '')")
          case (Inl e)
          then have "?r = ctx" using a b Some c x by (simp add: ExchangeTokenInContext_def Let_def)
          with changed show ?thesis by simp
        next
          case (Inr tok)
          then have "?r OAuthAuthorizationHeader =
              Some (CtxString (''Bearer '' @ AccessToken tok))"
            using a b Some c x by (simp add: ExchangeTokenInContext_def Let_def WithValue_def)
          with a Some c x Inr show ?thesis by blast
        qed
      qed
    qed
  qed
qed


theorem ExchangeTokenInContext_per_target_witness:
  "ExchangeTokenInContext exampleSts (exchangerRegistry exampleWorld) exampleContext zeroConfig
       None None (Some exampleTep) ''cluster-a'' =
     (exampleContext,
      [Errorf ''token exchange failed for target %q: %v''
         [''cluster-a'', ''token exchange failed with status 400: invalid_grant: token expired'']]) \<and>
   fst (ExchangeTokenInContext exampleSts (exchangerRegistry exampleWorldOk) exampleContext
       zeroConfig None None (Some exampleTep) ''cluster-a'') =
     exampleContext(OAuthAuthorizationHeader \<mapsto> CtxString ''Bearer X'')"
proof -
  let ?ex = "\<lambda>w. (\<lambda>(ctx :: nat Context) cfg subjectToken. fst (rfc8693_Exchange w cfg subjectToken))"
  have a: "exampleContext OAuthAuthorizationHeader = Some (CtxString ''Bearer T'')"
    by (simp add: exampleContext_def)
  have p: "HasPrefix ''Bearer T'' ''Bearer ''" "TrimPrefix ''Bearer T'' ''Bearer '' = ''T''"
    by (simp_all add: HasPrefix_def TrimPrefix_def)
  have c: "GetTokenExchangeConfig exampleTep ''cluster-a'' = Some exampleExchangeConfig"
    by (simp add: exampleTep_def)
  have g: "\<And>w. GetTokenExchanger (exchangerRegistry w) (GetTokenExchangeStrategy exampleTep) =
      Some (?ex w)"
    by (simp add: GetTokenExchanger_def exchangerRegistry_def exampleTep_def
          StrategyRFC8693_def StrategyKeycloakV1_def)
  have e1: "fst (rfc8693_Exchange exampleWorld exampleExchangeConfig ''T'') =
      Inl ''token exchange failed with status 400: invalid_grant: token expired''"
    by code_simp
  have e2: "fst (rfc8693_Exchange exampleWorldOk exampleExchangeConfig ''T'') =
      Inr \<lparr>AccessToken = ''X'', TokenType = ''Bearer'', RefreshToken = [], Expiry = None\<rparr>"
    by code_simp
  have l: "snd (ExchangeTokenInContext exampleSts (exchangerRegistry exampleWorld) exampleContext
       zeroConfig None None (Some exampleTep) ''cluster-a'') =
      [Errorf ''token exchange failed for target %q: %v''
         [''cluster-a'', ''token exchange failed with status 400: invalid_grant: token expired'']]"
    using a p c g [of exampleWorld] e1
    by (simp add: ExchangeTokenInContext_def Let_def)
  have t1: "fst (ExchangeTokenInContext exampleSts (exchangerRegistry exampleWorld) exampleContext
       zeroConfig None None (Some exampleTep) ''cluster-a'') = exampleContext"
    using ExchangeTokenInContext_per_target
      [where ctx = exampleContext and auth = "''Bearer T''" and tep = "Some exampleTep"
         and p = exampleTep and target = "''cluster-a''" and exCfg = exampleExchangeConfig
         and exchangers = "exchangerRegistry exampleWorld" and exchanger = "?ex exampleWorld"
         and err = "''token exchange failed with status 400: invalid_grant: token expired''"
         and newSts = exampleSts and cfg = zeroConfig and oidcProvider = None
         and httpClient = None]
      a p c g [of exampleWorld] e1
    by simp
  have t2: "fst (ExchangeTokenInContext exampleSts (exchangerRegistry exampleWorldOk) exampleContext
       zeroConfig None None (Some exampleTep) ''cluster-a'') =
     exampleContext(OAuthAuthorizationHeader \<mapsto> CtxString ''Bearer X'')"
    using ExchangeTokenInContext_per_target
      [where ctx = exampleContext and auth = "''Bearer T''" and tep = "Some exampleTep"
         and p = exampleTep and target = "''cluster-a''" and exCfg = exampleExchangeConfig
         and exchangers = "exchangerRegistry exampleWorldOk" and exchanger = "?ex exampleWorldOk"
         and exchanged = "\<lparr>AccessToken = ''X'', TokenType = ''Bearer'', RefreshToken = [],
                           Expiry = None\<rparr>"
         and newSts = exampleSts and cfg = zeroConfig and oidcProvider = None
         and httpClient = None]
      a p c g [of exampleWorldOk] e2
    by simp
  show ?thesis using l t1 t2 by (simp add: prod_eq_iff)
qed

subsection \<open>Access-control round tripper\<close>

text \<open>
  C1. For every list of denied resources and every request whose path is not an
  unprotected endpoint and whose resolved group, version and kind match a rule of the list
  (an empty field of a rule matching anything), \<open>RoundTrip\<close> returns an error that
  contains \<open>resource not allowed\<close> and the group, version and kind, and hands nothing
  to the delegate.
\<close>

theorem RoundTrip_denied:
  assumes "\<not> unprotected (k_Path req)"
    and "restMapper (parseGVR (k_Path req)) = Inr gvk"
    and "deniedResourcesProvider = Some rules"
    and "rule \<in> set rules"
    and "matchesRule rule gvk"
  shows "\<exists>e. RoundTrip unprotected restMapper deniedResourcesProvider delegate req delegated =
              (Inl e, delegated) \<and>
             Contains e ''resource not allowed'' \<and> Contains e (gvkString gvk)"
proof -
  let ?e = "''resource not allowed: '' @ gvkString gvk"
  have "list_ex (\<lambda>rule. matchesRule rule gvk) rules"
    using assms(4,5) by (auto simp add: list_ex_iff)
  then have "\<not> isAllowed deniedResourcesProvider gvk"
    using assms(3) by (simp add: isAllowed_def)
  then have "RoundTrip unprotected restMapper deniedResourcesProvider delegate req delegated =
      (Inl ?e, delegated)"
    using assms(1,2) by (simp add: RoundTrip_def)
  moreover have "Contains ?e ''resource not allowed''"
    using Contains_prefix [of "''resource not allowed''" "'': '' @ gvkString gvk"] by simp
  moreover have "Contains ?e (gvkString gvk)"
    by (rule Contains_append_right)
  ultimately show ?thesis by blast
qed

theorem RoundTrip_denied_witness:
  "\<not> unprotectedEndpoint ''/api/v1/namespaces/default/pods/my-pod'' \<and>
   RoundTrip unprotectedEndpoint exampleRestMapper
       (Some [\<lparr>Group = [], Version = ''v1'', Kind = ''Pod''\<rparr>]) exampleDelegate
       \<lparr>k_Method = ''GET'', k_Path = ''/api/v1/namespaces/default/pods/my-pod''\<rparr> [] =
     (Inl ''resource not allowed: /v1, Kind=Pod'', [])"
proof -
  let ?req = "\<lparr>k_Method = ''GET'', k_Path = ''/api/v1/namespaces/default/pods/my-pod''\<rparr>"
  let ?pod = "\<lparr>Group = [], Version = ''v1'', Kind = ''Pod''\<rparr>"
  have u: "\<not> unprotectedEndpoint (k_Path ?req)"
    by (simp add: unprotectedEndpoint_def discoveryEndpoint_def)
  have m: "exampleRestMapper (parseGVR (k_Path ?req)) = Inr ?pod"
    by (simp add: parseGVR_def resourceSegment_def exampleRestMapper_def)
  have r: "matchesRule ?pod ?pod"
    by (simp add: matchesRule_def)
  have s: "gvkString ?pod = ''/v1, Kind=Pod''"
    by (simp add: gvkString_def)
  show ?thesis
    using RoundTrip_denied
      [where unprotected = unprotectedEndpoint and req = ?req and restMapper = exampleRestMapper
         and gvk = ?pod and deniedResourcesProvider = "Some [?pod]" and rules = "[?pod]"
         and rule = ?pod and delegate = exampleDelegate and delegated = "[]"]
      u m r s
    by (auto simp add: RoundTrip_def isAllowed_def)
qed

subsection \<open>Reload of the toolsets\<close>

lemma Toolsets_idem:
  "Configuration_Toolsets deps (snd (Configuration_Toolsets deps c)) =
     Configuration_Toolsets deps c"
  by (cases "c_toolsets c") (simp_all add: Configuration_Toolsets_def Let_def)

lemma Toolsets_static:
  "c_StaticConfig (snd (Configuration_Toolsets deps c)) = c_StaticConfig c"
  by (cases "c_toolsets c") (simp_all add: Configuration_Toolsets_def Let_def)

lemma addTools_ok: "addTools srv ts = (None, foldl mcp_AddTool srv (map toGoSdkTool ts))"
  by (induction ts arbitrary: srv) (simp_all add: ServerToolToGoSdkTool_def)

lemma foldl_upd_add:
  "foldl (\<lambda>m g. m(k g \<mapsto> g)) (m ++ n) gs = m ++ foldl (\<lambda>m g. m(k g \<mapsto> g)) n gs"
proof (induction gs arbitrary: n)
  case Nil
  show ?case by simp
next
  case (Cons g gs)
  have u: "(m ++ n)(k g \<mapsto> g) = m ++ n(k g \<mapsto> g)" by simp
  have "foldl (\<lambda>m g. m(k g \<mapsto> g)) (m ++ n) (g # gs) =
      foldl (\<lambda>m g. m(k g \<mapsto> g)) ((m ++ n)(k g \<mapsto> g)) gs"
    by (simp only: foldl_Cons)
  also have "\<dots> = foldl (\<lambda>m g. m(k g \<mapsto> g)) (m ++ n(k g \<mapsto> g)) gs"
    by (simp only: u)
  also have "\<dots> = m ++ foldl (\<lambda>m g. m(k g \<mapsto> g)) (n(k g \<mapsto> g)) gs"
    by (rule Cons.IH)
  also have "\<dots> = m ++ foldl (\<lambda>m g. m(k g \<mapsto> g)) n (g # gs)"
    by (simp only: foldl_Cons)
  finally show ?case .
qed

lemma map_add_twice: "(m ++ n) ++ n = m ++ (n :: 'a \<rightharpoonup> 'b)"
  by (rule ext) (simp add: map_add_def split: option.splits)

lemma foldl_upd_idem:
  "foldl (\<lambda>m g. m(k g \<mapsto> g)) (foldl (\<lambda>m g. m(k g \<mapsto> g)) m gs) gs =
     foldl (\<lambda>m g. m(k g \<mapsto> g)) m gs"
proof -
  have e: "foldl (\<lambda>m g. m(k g \<mapsto> g)) x gs =
      x ++ foldl (\<lambda>m g. m(k g \<mapsto> g)) Map.empty gs" for x
    using foldl_upd_add [of k x Map.empty gs] by (simp only: map_add_empty)
  let ?N = "foldl (\<lambda>m g. m(k g \<mapsto> g)) Map.empty gs"
  have "foldl (\<lambda>m g. m(k g \<mapsto> g)) (foldl (\<lambda>m g. m(k g \<mapsto> g)) m gs) gs =
      foldl (\<lambda>m g. m(k g \<mapsto> g)) m gs ++ ?N"
    by (rule e)
  also have "\<dots> = (m ++ ?N) ++ ?N" by (simp only: e [of m])
  also have "\<dots> = m ++ ?N" by (rule map_add_twice)
  also have "\<dots> = foldl (\<lambda>m g. m(k g \<mapsto> g)) m gs" by (simp only: e [of m])
  finally show ?thesis .
qed

lemma tools_foldl_AddTool:
  "tools (foldl mcp_AddTool srv gs) = foldl (\<lambda>m g. m(g_Name g \<mapsto> g)) (tools srv) gs"
  by (induction gs arbitrary: srv) (simp_all add: mcp_AddTool_def)

lemma calls_foldl_AddTool:
  "calls (foldl mcp_AddTool srv gs) = calls srv @ map (\<lambda>g. AddToolCall (g_Name g)) gs"
  by (induction gs arbitrary: srv) (simp_all add: mcp_AddTool_def)

lemma addPrompts_keeps:
  "addPrompts deps srv ps = (e, srv') \<Longrightarrow>
     tools srv' = tools srv \<and> (\<exists>xs. calls srv' = calls srv @ xs)"
proof (induction ps arbitrary: srv)
  case Nil
  then show ?case by simp
next
  case (Cons pr ps)
  show ?case
  proof (cases "ServerPromptToGoSdkPrompt deps pr")
    case (Inl err)
    with Cons.prems show ?thesis by simp
  next
    case (Inr g)
    with Cons.prems have "addPrompts deps (mcp_AddPrompt srv g) ps = (e, srv')" by simp
    from Cons.IH [OF this] show ?thesis by (auto simp add: mcp_AddPrompt_def)
  qed
qed

lemma addPrompts_error: "fst (addPrompts deps srv ps) = fst (addPrompts deps srv' ps)"
proof (induction ps arbitrary: srv srv')
  case Nil
  show ?case by simp
next
  case (Cons pr ps)
  show ?case
  proof (cases "ServerPromptToGoSdkPrompt deps pr")
    case (Inl err)
    then show ?thesis by simp
  next
    case (Inr g)
    have "fst (addPrompts deps (mcp_AddPrompt srv g) ps) =
        fst (addPrompts deps (mcp_AddPrompt srv' g) ps)"
      by (rule Cons.IH)
    with Inr show ?thesis by simp
  qed
qed


lemma reloadTools_eq:
  "reloadTools deps s targets =
     (None, s\<lparr>configuration := snd (Configuration_Toolsets deps (configuration s)),
               enabledTools := map t_Name (applicableTools deps s targets),
               server := foldl mcp_AddTool
                 (mcp_RemoveTools (server s)
                    (filter (\<lambda>oldTool. oldTool \<notin> set (map t_Name (applicableTools deps s targets)))
                       (enabledTools s)))
                 (map toGoSdkTool (applicableTools deps s targets))\<rparr>)"
  by (simp add: reloadTools_def Let_def addTools_ok)

lemma applicableTools_cong:
  assumes "c_StaticConfig (configuration s') = c_StaticConfig (configuration s)"
    and "fst (Configuration_Toolsets deps (configuration s')) =
           fst (Configuration_Toolsets deps (configuration s))"
    and "srv_p s' = srv_p s"
  shows "applicableTools deps s' targets = applicableTools deps s targets"
  using assms by (simp add: applicableTools_def)

lemma reloadPrompts_keeps:
  assumes "reloadPrompts deps s = (e, s')"
  shows "enabledTools s' = enabledTools s" "tools (server s') = tools (server s)"
    "srv_p s' = srv_p s"
    "configuration s' = snd (Configuration_Toolsets deps (configuration s))"
    "\<exists>xs. calls (server s') = calls (server s) @ xs"
proof -
  let ?P = "MergePrompts deps
      (concat (map GetPrompts (fst (Configuration_Toolsets deps (configuration s)))))
      (ToServerPrompts deps (Prompts (c_StaticConfig (configuration s))))"
  let ?R = "filter (\<lambda>oldPrompt. oldPrompt \<notin> set (map sp_Name ?P)) (enabledPrompts s)"
  obtain err srv where a: "addPrompts deps (mcp_RemovePrompts (server s) ?R) ?P = (err, srv)"
    by (cases "addPrompts deps (mcp_RemovePrompts (server s) ?R) ?P")
  have s': "s' = s\<lparr>configuration := snd (Configuration_Toolsets deps (configuration s)),
                 enabledPrompts := map sp_Name ?P, server := srv\<rparr>"
    using assms a by (simp add: reloadPrompts_def Let_def)
  from addPrompts_keeps [OF a]
  have k: "tools srv = tools (mcp_RemovePrompts (server s) ?R)"
    "\<exists>xs. calls srv = calls (mcp_RemovePrompts (server s) ?R) @ xs"
    by simp_all
  show "enabledTools s' = enabledTools s" using s' by simp
  show "tools (server s') = tools (server s)" using s' k(1) by (simp add: mcp_RemovePrompts_def)
  show "srv_p s' = srv_p s" using s' by simp
  show "configuration s' = snd (Configuration_Toolsets deps (configuration s))" using s' by simp
  from k(2) obtain xs where "calls srv = calls (mcp_RemovePrompts (server s) ?R) @ xs" ..
  then have "calls (server s') = calls (server s) @ (RemovePromptsCall ?R # xs)"
    using s' by (simp add: mcp_RemovePrompts_def)
  then show "\<exists>xs. calls (server s') = calls (server s) @ xs" by blast
qed

lemma reloadPrompts_fst:
  "fst (reloadPrompts deps s) =
     fst (addPrompts deps srv (applicablePrompts deps (configuration s)))"
proof -
  have "fst (reloadPrompts deps s) =
      fst (addPrompts deps (mcp_RemovePrompts (server s)
             (filter (\<lambda>oldPrompt. oldPrompt \<notin>
                 set (map sp_Name (applicablePrompts deps (configuration s))))
               (enabledPrompts s)))
           (applicablePrompts deps (configuration s)))"
    by (simp add: reloadPrompts_def applicablePrompts_def Let_def split: prod.splits)
  also have "\<dots> = fst (addPrompts deps srv (applicablePrompts deps (configuration s)))"
    by (rule addPrompts_error)
  finally show ?thesis .
qed

lemma reloadToolsets_GetTargets_error:
  "GetTargets (srv_p s) = Inl err \<Longrightarrow> reloadToolsets deps s = (Some err, s)"
  by (simp add: reloadToolsets_def)

lemma reloadToolsets_after:
  assumes "GetTargets (srv_p s) = Inr targets"
  shows "fst (reloadToolsets deps s) =
           fst (addPrompts deps srv
                  (applicablePrompts deps (snd (Configuration_Toolsets deps (configuration s)))))"
    and "enabledTools (snd (reloadToolsets deps s)) = map t_Name (applicableTools deps s targets)"
    and "tools (server (snd (reloadToolsets deps s))) =
           foldl (\<lambda>m g. m(g_Name g \<mapsto> g))
             (tools (server s) |`
                (- set (filter (\<lambda>oldTool. oldTool \<notin> set (map t_Name (applicableTools deps s targets)))
                          (enabledTools s))))
             (map toGoSdkTool (applicableTools deps s targets))"
    and "srv_p (snd (reloadToolsets deps s)) = srv_p s"
    and "configuration (snd (reloadToolsets deps s)) =
           snd (Configuration_Toolsets deps (configuration s))"
proof -
  obtain t1 where t1: "reloadTools deps s targets = (None, t1)"
    by (simp add: reloadTools_eq)
  have t1_eq: "t1 = snd (reloadTools deps s targets)" using t1 by simp
  obtain e u where u: "reloadPrompts deps t1 = (e, u)"
    by (cases "reloadPrompts deps t1")
  note k = reloadPrompts_keeps [OF u]
  have c1: "configuration t1 = snd (Configuration_Toolsets deps (configuration s))"
    using t1 by (auto simp add: reloadTools_eq)
  have f1: "enabledTools t1 = map t_Name (applicableTools deps s targets)"
    "srv_p t1 = srv_p s"
    "tools (server t1) = foldl (\<lambda>m g. m(g_Name g \<mapsto> g))
             (tools (server s) |`
                (- set (filter (\<lambda>oldTool. oldTool \<notin> set (map t_Name (applicableTools deps s targets)))
                          (enabledTools s))))
             (map toGoSdkTool (applicableTools deps s targets))"
    using t1 by (auto simp add: reloadTools_eq tools_foldl_AddTool mcp_RemoveTools_def)
  have r: "reloadToolsets deps s =
      (e, if e = None then u\<lparr>watchTargetsCalls := Suc (watchTargetsCalls u)\<rparr> else u)"
    using assms t1 u by (cases e) (simp_all add: reloadToolsets_def)
  have "e = fst (reloadPrompts deps t1)" using u by simp
  also have "\<dots> = fst (addPrompts deps srv (applicablePrompts deps (configuration t1)))"
    by (rule reloadPrompts_fst)
  finally show "fst (reloadToolsets deps s) =
           fst (addPrompts deps srv
                  (applicablePrompts deps (snd (Configuration_Toolsets deps (configuration s)))))"
    using r c1 by simp
  show "enabledTools (snd (reloadToolsets deps s)) = map t_Name (applicableTools deps s targets)"
    using r k(1) f1(1) by simp
  show "tools (server (snd (reloadToolsets deps s))) =
           foldl (\<lambda>m g. m(g_Name g \<mapsto> g))
             (tools (server s) |`
                (- set (filter (\<lambda>oldTool. oldTool \<notin> set (map t_Name (applicableTools deps s targets)))
                          (enabledTools s))))
             (map toGoSdkTool (applicableTools deps s targets))"
    using r k(2) f1(3) by simp
  show "srv_p (snd (reloadToolsets deps s)) = srv_p s"
    using r k(3) f1(2) by simp
  show "configuration (snd (reloadToolsets deps s)) =
           snd (Configuration_Toolsets deps (configuration s))"
    using r k(4) c1 by (simp add: Toolsets_idem)
qed

lemma reloadToolsets_keeps:
  "srv_p (snd (reloadToolsets deps s)) = srv_p s"
  "c_StaticConfig (configuration (snd (reloadToolsets deps s))) = c_StaticConfig (configuration s)"
proof -
  show "srv_p (snd (reloadToolsets deps s)) = srv_p s"
    by (cases "GetTargets (srv_p s)")
      (simp_all add: reloadToolsets_GetTargets_error reloadToolsets_after(4))
  show "c_StaticConfig (configuration (snd (reloadToolsets deps s))) =
      c_StaticConfig (configuration s)"
    by (cases "GetTargets (srv_p s)")
      (simp_all add: reloadToolsets_GetTargets_error reloadToolsets_after(5) Toolsets_static)
qed


lemma ReloadConfiguration_result:
  "fst (ReloadConfiguration deps s newConfig) =
     map_option (\<lambda>err. ''failed to reload toolsets: '' @ err)
       (fst (reloadToolsets deps (s\<lparr>configuration :=
          \<lparr>c_StaticConfig = newConfig, c_listOutput = None, c_toolsets = None\<rparr>\<rparr>)))"
  "snd (ReloadConfiguration deps s newConfig) =
     snd (reloadToolsets deps (s\<lparr>configuration :=
          \<lparr>c_StaticConfig = newConfig, c_listOutput = None, c_toolsets = None\<rparr>\<rparr>))"
  by (simp_all add: ReloadConfiguration_def split: prod.splits option.splits)

lemma example0:
  "GetTargets (srv_p exampleServer0) = Inr [[]]"
  "enabledTools exampleServer0 = []"
  "fst (Configuration_Toolsets exampleDeps (configuration exampleServer0)) =
     [ToolsetFromString exampleDeps ''core'']"
  "c_StaticConfig (snd (Configuration_Toolsets exampleDeps (configuration exampleServer0))) =
     zeroConfig\<lparr>Toolsets := [''core'']\<rparr>"
  by (simp_all add: exampleServer0_def exampleProvider_def Configuration_Toolsets_def Let_def
        zeroConfig_def)

lemma exampleToolsets:
  "GetTools (ToolsetFromString exampleDeps ''core'') pr =
     [exampleTool ''pods_list'' (Some True) None, exampleTool ''pods_delete'' None (Some True)]"
  "GetTools (ToolsetFromString exampleDeps ''helm'') pr =
     [exampleTool ''helm_list'' (Some True) None]"
  "GetPrompts (ToolsetFromString exampleDeps n) = []"
  by (simp_all add: exampleDeps_def)

lemma exampleFilter:
  "ReadOnly c = False \<Longrightarrow> DisableDestructive c = False \<Longrightarrow> EnabledTools c = None \<Longrightarrow>
   DisabledTools c = None \<Longrightarrow>
   CompositeFilter (isToolApplicable c) (ShouldIncludeTargetListTool exampleDeps n ts) t"
  by (simp add: CompositeFilter_def isToolApplicable_def exampleDeps_def)

lemma exampleMutator: "WithTargetParameter exampleDeps d n ts t = t"
  by (simp add: exampleDeps_def)

lemma example0_applicable:
  "applicableTools exampleDeps exampleServer0 [[]] =
     [exampleTool ''pods_list'' (Some True) None, exampleTool ''pods_delete'' None (Some True)]"
  unfolding applicableTools_def Let_def example0(3)
  by (simp add: exampleToolsets exampleMutator exampleFilter exampleServer0_def zeroConfig_def)

lemma example0_prompts:
  "applicablePrompts exampleDeps
     (snd (Configuration_Toolsets exampleDeps (configuration exampleServer0))) = []"
  unfolding applicablePrompts_def Toolsets_idem example0(3) example0(4)
  by (simp add: exampleToolsets) (simp add: exampleDeps_def zeroConfig_def)

lemma example1:
  "srv_p exampleServer1 = exampleProvider"
  "c_StaticConfig (configuration exampleServer1) = zeroConfig\<lparr>Toolsets := [''core'']\<rparr>"
  by (simp_all add: exampleServer1_def reloadToolsets_keeps exampleServer0_def)

lemma exampleN:
  "GetTargets (srv_p (exampleServer1\<lparr>configuration :=
      \<lparr>c_StaticConfig = exampleNewConfig, c_listOutput = None, c_toolsets = None\<rparr>\<rparr>)) = Inr [[]]"
  "fst (Configuration_Toolsets exampleDeps
      \<lparr>c_StaticConfig = exampleNewConfig, c_listOutput = None, c_toolsets = None\<rparr>) =
     [ToolsetFromString exampleDeps ''core'', ToolsetFromString exampleDeps ''helm'']"
  "c_StaticConfig (snd (Configuration_Toolsets exampleDeps
      \<lparr>c_StaticConfig = exampleNewConfig, c_listOutput = None, c_toolsets = None\<rparr>)) =
     exampleNewConfig"
  by (simp_all add: example1 exampleProvider_def Configuration_Toolsets_def Let_def
        exampleNewConfig_def zeroConfig_def)

lemma exampleNewConfig_fields:
  "ReadOnly exampleNewConfig = False" "DisableDestructive exampleNewConfig = False"
  "EnabledTools exampleNewConfig = None" "DisabledTools exampleNewConfig = None"
  "Prompts exampleNewConfig = [''bad'']"
  by (simp_all add: exampleNewConfig_def zeroConfig_def)

lemma exampleN_applicable:
  "applicableTools exampleDeps (exampleServer1\<lparr>configuration :=
      \<lparr>c_StaticConfig = exampleNewConfig, c_listOutput = None, c_toolsets = None\<rparr>\<rparr>) [[]] =
     [exampleTool ''pods_list'' (Some True) None, exampleTool ''pods_delete'' None (Some True),
      exampleTool ''helm_list'' (Some True) None]"
  unfolding applicableTools_def Let_def
  by (simp add: exampleN(2) exampleToolsets exampleMutator exampleFilter exampleNewConfig_fields)

lemma exampleN_prompts:
  "applicablePrompts exampleDeps (snd (Configuration_Toolsets exampleDeps
      \<lparr>c_StaticConfig = exampleNewConfig, c_listOutput = None, c_toolsets = None\<rparr>)) =
     [\<lparr>sp_Name = ''bad'', sp_Description = []\<rparr>]"
  unfolding applicablePrompts_def Toolsets_idem exampleN(2) exampleN(3)
  by (simp add: exampleToolsets exampleNewConfig_fields) (simp add: exampleDeps_def)

lemma exampleN_error:
  "fst (addPrompts exampleDeps srv [\<lparr>sp_Name = ''bad'', sp_Description = []\<rparr>]) =
     Some ''failed to convert prompt bad: invalid prompt''"
  by (simp add: exampleDeps_def)

lemma reloadToolsets_calls:
  assumes "GetTargets (srv_p s) = Inr targets"
  shows "\<exists>rest. calls (server (snd (reloadToolsets deps s))) =
           calls (server s) @
           RemoveToolsCall (filter (\<lambda>oldTool. oldTool \<notin> set (map t_Name (applicableTools deps s targets)))
                              (enabledTools s)) # rest"
proof -
  let ?R = "filter (\<lambda>oldTool. oldTool \<notin> set (map t_Name (applicableTools deps s targets)))
              (enabledTools s)"
  obtain t1 where t1: "reloadTools deps s targets = (None, t1)"
    by (simp add: reloadTools_eq)
  have c1: "calls (server t1) = calls (server s) @ RemoveToolsCall ?R #
      map (\<lambda>g. AddToolCall (g_Name g)) (map toGoSdkTool (applicableTools deps s targets))"
    using t1 by (auto simp add: reloadTools_eq calls_foldl_AddTool mcp_RemoveTools_def)
  obtain e u where u: "reloadPrompts deps t1 = (e, u)"
    by (cases "reloadPrompts deps t1")
  from reloadPrompts_keeps(5) [OF u] obtain xs where
    xs: "calls (server u) = calls (server t1) @ xs" ..
  have r: "reloadToolsets deps s =
      (e, if e = None then u\<lparr>watchTargetsCalls := Suc (watchTargetsCalls u)\<rparr> else u)"
    using assms t1 u by (cases e) (simp_all add: reloadToolsets_def)
  have "calls (server (snd (reloadToolsets deps s))) = calls (server s) @ RemoveToolsCall ?R #
      (map (\<lambda>g. AddToolCall (g_Name g)) (map toGoSdkTool (applicableTools deps s targets)) @ xs)"
    using r xs c1 by simp
  then show ?thesis by blast
qed

text \<open>
  C8. A second reload of the toolsets, with the same configuration, provider and
  functions, returns what the first returned and leaves the enabled tool names and the
  registered tools as the first left them; when it reaches the runtime (the provider gives
  its targets), its call to \<open>RemoveTools\<close> names no tool.
\<close>

theorem reloadToolsets_idempotent:
  "fst (reloadToolsets deps (snd (reloadToolsets deps s0))) = fst (reloadToolsets deps s0) \<and>
   enabledTools (snd (reloadToolsets deps (snd (reloadToolsets deps s0)))) =
     enabledTools (snd (reloadToolsets deps s0)) \<and>
   tools (server (snd (reloadToolsets deps (snd (reloadToolsets deps s0))))) =
     tools (server (snd (reloadToolsets deps s0))) \<and>
   (calls (server (snd (reloadToolsets deps (snd (reloadToolsets deps s0))))) =
      calls (server (snd (reloadToolsets deps s0))) \<or>
    (\<exists>rest. calls (server (snd (reloadToolsets deps (snd (reloadToolsets deps s0))))) =
       calls (server (snd (reloadToolsets deps s0))) @ RemoveToolsCall [] # rest))"
proof (cases "GetTargets (srv_p s0)")
  case (Inl err)
  then have "reloadToolsets deps s0 = (Some err, s0)"
    by (rule reloadToolsets_GetTargets_error)
  then show ?thesis by simp
next
  case (Inr targets)
  let ?s1 = "snd (reloadToolsets deps s0)"
  let ?s2 = "snd (reloadToolsets deps ?s1)"
  let ?A = "applicableTools deps s0 targets"
  let ?c1 = "snd (Configuration_Toolsets deps (configuration s0))"
  note a0 = reloadToolsets_after [OF Inr, of deps]
  have g1: "GetTargets (srv_p ?s1) = Inr targets"
    using Inr a0(4) by simp
  note a1 = reloadToolsets_after [OF g1, of deps]
  have A1: "applicableTools deps ?s1 targets = ?A"
    by (rule applicableTools_cong) (simp_all add: a0(4) a0(5) Toolsets_static Toolsets_idem)
  have R1: "filter (\<lambda>oldTool. oldTool \<notin> set (map t_Name ?A)) (enabledTools ?s1) = []"
    by (simp add: a0(2))
  have e: "fst (reloadToolsets deps ?s1) = fst (reloadToolsets deps s0)"
    using a1(1) [of "server s0"] a0(1) [of "server s0"] by (simp add: a0(5) Toolsets_idem)
  have n: "enabledTools ?s2 = enabledTools ?s1"
    by (simp only: a1(2) A1 a0(2))
  have "tools (server ?s2) =
      foldl (\<lambda>m g. m(g_Name g \<mapsto> g)) (tools (server ?s1)) (map toGoSdkTool ?A)"
    by (simp only: a1(3) A1 R1) (simp add: restrict_map_def)
  also have "\<dots> = tools (server ?s1)"
    by (simp only: a0(3) foldl_upd_idem)
  finally have t: "tools (server ?s2) = tools (server ?s1)" .
  from reloadToolsets_calls [OF g1, of deps]
  have c: "\<exists>rest. calls (server ?s2) = calls (server ?s1) @ RemoveToolsCall [] # rest"
    by (simp only: A1 R1)
  show ?thesis using e n t c by blast
qed

theorem reloadToolsets_idempotent_witness:
  "fst (reloadToolsets exampleDeps exampleServer0) = None \<and>
   fst (reloadToolsets exampleDeps exampleServer1) = None \<and>
   enabledTools exampleServer1 = [''pods_list'', ''pods_delete''] \<and>
   enabledTools (snd (reloadToolsets exampleDeps exampleServer1)) =
     [''pods_list'', ''pods_delete'']"
proof -
  have f: "fst (reloadToolsets exampleDeps exampleServer0) = None"
    using reloadToolsets_after(1) [OF example0(1), of exampleDeps "server exampleServer0"]
    by (simp add: example0_prompts)
  have e: "enabledTools exampleServer1 = [''pods_list'', ''pods_delete'']"
    unfolding exampleServer1_def reloadToolsets_after(2) [OF example0(1)] example0_applicable
    by (simp add: exampleTool_def)
  show ?thesis
    using reloadToolsets_idempotent [of exampleDeps exampleServer0] f e
    by (simp add: exampleServer1_def)
qed


lemma addPrompts_upto:
  "addPrompts deps srv ps =
     (case dropWhile (\<lambda>p. \<not> isl (ServerPromptToGoSdkPrompt deps p)) ps of
        [] \<Rightarrow> None
      | p # rest \<Rightarrow>
          Some (''failed to convert prompt '' @ sp_Name p @ '': '' @
                projl (ServerPromptToGoSdkPrompt deps p)),
      foldl mcp_AddPrompt srv
        (map (\<lambda>p. projr (ServerPromptToGoSdkPrompt deps p))
           (takeWhile (\<lambda>p. \<not> isl (ServerPromptToGoSdkPrompt deps p)) ps)))"
proof (induction ps arbitrary: srv)
  case Nil
  show ?case by simp
next
  case (Cons p ps)
  show ?case
  proof (cases "ServerPromptToGoSdkPrompt deps p")
    case (Inl err)
    then show ?thesis by simp
  next
    case (Inr g)
    then show ?thesis using Cons.IH [of "mcp_AddPrompt srv g"] by simp
  qed
qed

lemma prompts_foldl_AddPrompt:
  "prompts (foldl mcp_AddPrompt srv gs) = foldl (\<lambda>m g. m(gp_Name g \<mapsto> g)) (prompts srv) gs"
  by (induction gs arbitrary: srv) (simp_all add: mcp_AddPrompt_def)

lemma prompts_foldl_AddTool: "prompts (foldl mcp_AddTool srv gs) = prompts srv"
  by (induction gs arbitrary: srv) (simp_all add: mcp_AddTool_def)

lemma applicablePrompts_cached:
  "applicablePrompts deps (snd (Configuration_Toolsets deps c)) = applicablePrompts deps c"
  by (simp add: applicablePrompts_def Toolsets_idem Toolsets_static)

lemma reloadPrompts_eq:
  "reloadPrompts deps s =
     (fst (addPrompts deps
             (mcp_RemovePrompts (server s)
                (filter (\<lambda>oldPrompt. oldPrompt \<notin>
                     set (map sp_Name (applicablePrompts deps (configuration s))))
                   (enabledPrompts s)))
             (applicablePrompts deps (configuration s))),
      s\<lparr>configuration := snd (Configuration_Toolsets deps (configuration s)),
        enabledPrompts := map sp_Name (applicablePrompts deps (configuration s)),
        server := snd (addPrompts deps
             (mcp_RemovePrompts (server s)
                (filter (\<lambda>oldPrompt. oldPrompt \<notin>
                     set (map sp_Name (applicablePrompts deps (configuration s))))
                   (enabledPrompts s)))
             (applicablePrompts deps (configuration s)))\<rparr>)"
  by (simp add: reloadPrompts_def applicablePrompts_def Let_def split: prod.splits)

lemma reloadToolsets_prompts:
  assumes "GetTargets (srv_p s) = Inr targets"
  shows "fst (reloadToolsets deps s) =
      (case dropWhile (\<lambda>p. \<not> isl (ServerPromptToGoSdkPrompt deps p))
              (applicablePrompts deps (configuration s)) of
         [] \<Rightarrow> None
       | p # rest \<Rightarrow>
           Some (''failed to convert prompt '' @ sp_Name p @ '': '' @
                 projl (ServerPromptToGoSdkPrompt deps p)))"
    and "enabledPrompts (snd (reloadToolsets deps s)) =
      map sp_Name (applicablePrompts deps (configuration s))"
    and "prompts (server (snd (reloadToolsets deps s))) =
      foldl (\<lambda>m g. m(gp_Name g \<mapsto> g))
        (prompts (server s) |`
           (- set (filter (\<lambda>oldPrompt. oldPrompt \<notin>
                       set (map sp_Name (applicablePrompts deps (configuration s))))
                     (enabledPrompts s))))
        (map (\<lambda>p. projr (ServerPromptToGoSdkPrompt deps p))
           (takeWhile (\<lambda>p. \<not> isl (ServerPromptToGoSdkPrompt deps p))
              (applicablePrompts deps (configuration s))))"
proof -
  let ?P = "applicablePrompts deps (configuration s)"
  let ?R = "filter (\<lambda>oldPrompt. oldPrompt \<notin> set (map sp_Name ?P)) (enabledPrompts s)"
  obtain t1 where t1: "reloadTools deps s targets = (None, t1)"
    by (simp add: reloadTools_eq)
  have c1: "configuration t1 = snd (Configuration_Toolsets deps (configuration s))"
    and e1: "enabledPrompts t1 = enabledPrompts s"
    and p1: "prompts (server t1) = prompts (server s)"
    using t1 by (auto simp add: reloadTools_eq prompts_foldl_AddTool mcp_RemoveTools_def)
  have P1: "applicablePrompts deps (configuration t1) = ?P"
    by (simp add: c1 applicablePrompts_cached)
  let ?srv = "mcp_RemovePrompts (server t1) ?R"
  have r: "reloadPrompts deps t1 =
      (fst (addPrompts deps ?srv ?P),
       t1\<lparr>configuration := snd (Configuration_Toolsets deps (configuration t1)),
          enabledPrompts := map sp_Name ?P,
          server := snd (addPrompts deps ?srv ?P)\<rparr>)"
    using reloadPrompts_eq [of deps t1] by (simp only: P1 e1)
  have u: "snd (reloadToolsets deps s) =
      (let s2 = snd (reloadPrompts deps t1)
       in if fst (reloadPrompts deps t1) = None
          then s2\<lparr>watchTargetsCalls := Suc (watchTargetsCalls s2)\<rparr> else s2)"
    "fst (reloadToolsets deps s) = fst (reloadPrompts deps t1)"
    using assms t1
    by (auto simp add: reloadToolsets_def Let_def split: prod.splits option.splits)
  show "fst (reloadToolsets deps s) =
      (case dropWhile (\<lambda>p. \<not> isl (ServerPromptToGoSdkPrompt deps p)) ?P of
         [] \<Rightarrow> None
       | p # rest \<Rightarrow>
           Some (''failed to convert prompt '' @ sp_Name p @ '': '' @
                 projl (ServerPromptToGoSdkPrompt deps p)))"
    using u(2) r addPrompts_upto [of deps ?srv ?P] by simp
  show "enabledPrompts (snd (reloadToolsets deps s)) = map sp_Name ?P"
    using u(1) r by (simp add: Let_def)
  have "prompts (server (snd (reloadToolsets deps s))) =
      prompts (snd (addPrompts deps ?srv ?P))"
    using u(1) r by (simp add: Let_def)
  also have "\<dots> = foldl (\<lambda>m g. m(gp_Name g \<mapsto> g)) (prompts ?srv)
        (map (\<lambda>p. projr (ServerPromptToGoSdkPrompt deps p))
           (takeWhile (\<lambda>p. \<not> isl (ServerPromptToGoSdkPrompt deps p)) ?P))"
    using addPrompts_upto [of deps ?srv ?P] by (simp add: prompts_foldl_AddPrompt)
  also have "prompts ?srv = prompts (server s) |` (- set ?R)"
    by (simp add: mcp_RemovePrompts_def p1)
  finally show "prompts (server (snd (reloadToolsets deps s))) =
      foldl (\<lambda>m g. m(gp_Name g \<mapsto> g)) (prompts (server s) |` (- set ?R))
        (map (\<lambda>p. projr (ServerPromptToGoSdkPrompt deps p))
           (takeWhile (\<lambda>p. \<not> isl (ServerPromptToGoSdkPrompt deps p)) ?P))" .
qed

text \<open>
  C2 (as the code has it). When \<open>config.Read\<close> fails, the SIGHUP handler leaves the
  server as it is. \<open>ReloadConfiguration\<close> keeps the provider, but it installs the
  new \<open>StaticConfig\<close> before it reloads the toolsets and does not put the previous one
  back when the reload fails; when the reload fails because \<open>GetTargets\<close> fails,
  nothing else of the server has changed. When \<open>GetTargets\<close> succeeds, the reload fails
  exactly when a prompt of the new configuration cannot be converted, and the server is
  left as the reload had changed it by then: the enabled tools and the registered tools
  are those of the new configuration, the enabled prompts are those of the new
  configuration, and the prompts before the first one that cannot be converted are
  registered.
\<close>

theorem reload_failure_state:
  "sighupReload deps (Inl err) s = (Some err, s) \<and>
   srv_p (snd (ReloadConfiguration deps s newConfig)) = srv_p s \<and>
   c_StaticConfig (configuration (snd (ReloadConfiguration deps s newConfig))) = newConfig \<and>
   (GetTargets (srv_p s) = Inl e \<longrightarrow>
      ReloadConfiguration deps s newConfig =
        (Some (''failed to reload toolsets: '' @ e),
         s\<lparr>configuration :=
             \<lparr>c_StaticConfig = newConfig, c_listOutput = None, c_toolsets = None\<rparr>\<rparr>)) \<and>
   (let c = \<lparr>c_StaticConfig = newConfig, c_listOutput = None, c_toolsets = None\<rparr>;
        ts = applicableTools deps (s\<lparr>configuration := c\<rparr>) targets;
        ps = applicablePrompts deps c;
        fails = (\<lambda>p. isl (ServerPromptToGoSdkPrompt deps p))
    in GetTargets (srv_p s) = Inr targets \<longrightarrow>
         fst (ReloadConfiguration deps s newConfig) =
           (case dropWhile (\<lambda>p. \<not> fails p) ps of
              [] \<Rightarrow> None
            | p # rest \<Rightarrow>
                Some (''failed to reload toolsets: failed to convert prompt '' @ sp_Name p @
                      '': '' @ projl (ServerPromptToGoSdkPrompt deps p))) \<and>
         enabledTools (snd (ReloadConfiguration deps s newConfig)) = map t_Name ts \<and>
         tools (server (snd (ReloadConfiguration deps s newConfig))) =
           foldl (\<lambda>m g. m(g_Name g \<mapsto> g))
             (tools (server s) |`
                (- set (filter (\<lambda>oldTool. oldTool \<notin> set (map t_Name ts)) (enabledTools s))))
             (map toGoSdkTool ts) \<and>
         enabledPrompts (snd (ReloadConfiguration deps s newConfig)) = map sp_Name ps \<and>
         prompts (server (snd (ReloadConfiguration deps s newConfig))) =
           foldl (\<lambda>m g. m(gp_Name g \<mapsto> g))
             (prompts (server s) |`
                (- set (filter (\<lambda>oldPrompt. oldPrompt \<notin> set (map sp_Name ps))
                          (enabledPrompts s))))
             (map (\<lambda>p. projr (ServerPromptToGoSdkPrompt deps p))
                (takeWhile (\<lambda>p. \<not> fails p) ps)))"
proof -
  let ?c = "\<lparr>c_StaticConfig = newConfig, c_listOutput = None, c_toolsets = None\<rparr>"
  let ?s = "s\<lparr>configuration := ?c\<rparr>"
  have 1: "sighupReload deps (Inl err) s = (Some err, s)"
    by (simp add: sighupReload_def)
  have 2: "srv_p (snd (ReloadConfiguration deps s newConfig)) = srv_p s"
    by (simp add: ReloadConfiguration_result reloadToolsets_keeps)
  have 3: "c_StaticConfig (configuration (snd (ReloadConfiguration deps s newConfig))) = newConfig"
    by (simp add: ReloadConfiguration_result reloadToolsets_keeps)
  have 4: "ReloadConfiguration deps s newConfig = (Some (''failed to reload toolsets: '' @ e), ?s)"
    if "GetTargets (srv_p s) = Inl e"
    using that by (simp add: ReloadConfiguration_def reloadToolsets_def)
  have 5: "fst (ReloadConfiguration deps s newConfig) =
        (case dropWhile (\<lambda>p. \<not> isl (ServerPromptToGoSdkPrompt deps p))
                (applicablePrompts deps ?c) of
           [] \<Rightarrow> None
         | p # rest \<Rightarrow>
             Some (''failed to reload toolsets: failed to convert prompt '' @ sp_Name p @
                   '': '' @ projl (ServerPromptToGoSdkPrompt deps p)))"
    "enabledTools (snd (ReloadConfiguration deps s newConfig)) =
       map t_Name (applicableTools deps ?s targets)"
    "tools (server (snd (ReloadConfiguration deps s newConfig))) =
       foldl (\<lambda>m g. m(g_Name g \<mapsto> g))
         (tools (server s) |`
            (- set (filter (\<lambda>oldTool. oldTool \<notin> set (map t_Name (applicableTools deps ?s targets)))
                      (enabledTools s))))
         (map toGoSdkTool (applicableTools deps ?s targets))"
    "enabledPrompts (snd (ReloadConfiguration deps s newConfig)) =
       map sp_Name (applicablePrompts deps ?c)"
    "prompts (server (snd (ReloadConfiguration deps s newConfig))) =
       foldl (\<lambda>m g. m(gp_Name g \<mapsto> g))
         (prompts (server s) |`
            (- set (filter (\<lambda>oldPrompt. oldPrompt \<notin> set (map sp_Name (applicablePrompts deps ?c)))
                      (enabledPrompts s))))
         (map (\<lambda>p. projr (ServerPromptToGoSdkPrompt deps p))
            (takeWhile (\<lambda>p. \<not> isl (ServerPromptToGoSdkPrompt deps p))
               (applicablePrompts deps ?c)))"
    if t: "GetTargets (srv_p s) = Inr targets"
  proof -
    have g: "GetTargets (srv_p ?s) = Inr targets" using t by simp
    have m: "map_option f (case xs of [] \<Rightarrow> None | p # rest \<Rightarrow> Some (h p)) =
        (case xs of [] \<Rightarrow> None | p # rest \<Rightarrow> Some (f (h p)))"
      for f :: "string \<Rightarrow> string" and h :: "ServerPrompt \<Rightarrow> string" and xs
      by (cases xs) simp_all
    have F: "fst (reloadToolsets deps ?s) =
        (case dropWhile (\<lambda>p. \<not> isl (ServerPromptToGoSdkPrompt deps p))
                (applicablePrompts deps ?c) of
           [] \<Rightarrow> None
         | p # rest \<Rightarrow>
             Some (''failed to convert prompt '' @ sp_Name p @ '': '' @
                   projl (ServerPromptToGoSdkPrompt deps p)))"
      using reloadToolsets_prompts(1) [OF g, of deps] by simp
    show "fst (ReloadConfiguration deps s newConfig) =
        (case dropWhile (\<lambda>p. \<not> isl (ServerPromptToGoSdkPrompt deps p))
                (applicablePrompts deps ?c) of
           [] \<Rightarrow> None
         | p # rest \<Rightarrow>
             Some (''failed to reload toolsets: failed to convert prompt '' @ sp_Name p @
                   '': '' @ projl (ServerPromptToGoSdkPrompt deps p)))"
      unfolding ReloadConfiguration_result(1) F by (simp add: m cong: list.case_cong)
    show "enabledTools (snd (ReloadConfiguration deps s newConfig)) =
        map t_Name (applicableTools deps ?s targets)"
      using reloadToolsets_after(2) [OF g, of deps] by (simp only: ReloadConfiguration_result(2))
    show "tools (server (snd (ReloadConfiguration deps s newConfig))) =
       foldl (\<lambda>m g. m(g_Name g \<mapsto> g))
         (tools (server s) |`
            (- set (filter (\<lambda>oldTool. oldTool \<notin> set (map t_Name (applicableTools deps ?s targets)))
                      (enabledTools s))))
         (map toGoSdkTool (applicableTools deps ?s targets))"
      using reloadToolsets_after(3) [OF g, of deps] by (simp add: ReloadConfiguration_result(2))
    show "enabledPrompts (snd (ReloadConfiguration deps s newConfig)) =
        map sp_Name (applicablePrompts deps ?c)"
      using reloadToolsets_prompts(2) [OF g, of deps] by (simp add: ReloadConfiguration_result(2))
    show "prompts (server (snd (ReloadConfiguration deps s newConfig))) =
       foldl (\<lambda>m g. m(gp_Name g \<mapsto> g))
         (prompts (server s) |`
            (- set (filter (\<lambda>oldPrompt. oldPrompt \<notin> set (map sp_Name (applicablePrompts deps ?c)))
                      (enabledPrompts s))))
         (map (\<lambda>p. projr (ServerPromptToGoSdkPrompt deps p))
            (takeWhile (\<lambda>p. \<not> isl (ServerPromptToGoSdkPrompt deps p))
               (applicablePrompts deps ?c)))"
      using reloadToolsets_prompts(3) [OF g, of deps] by (simp add: ReloadConfiguration_result(2))
  qed
  show ?thesis
    unfolding Let_def
    using 1 2 3 4 5 by blast
qed

theorem reload_failure_state_witness:
  "GetTargets (srv_p (exampleServer0\<lparr>srv_p := exampleFailingProvider\<rparr>)) =
     Inl ''connection refused'' \<and>
   ReloadConfiguration exampleDeps (exampleServer0\<lparr>srv_p := exampleFailingProvider\<rparr>)
       exampleNewConfig =
     (Some ''failed to reload toolsets: connection refused'',
      exampleServer0\<lparr>srv_p := exampleFailingProvider,
        configuration :=
          \<lparr>c_StaticConfig = exampleNewConfig, c_listOutput = None, c_toolsets = None\<rparr>\<rparr>) \<and>
   GetTargets (srv_p exampleServer1) = Inr [[]] \<and>
   fst (ReloadConfiguration exampleDeps exampleServer1 exampleNewConfig) =
     Some ''failed to reload toolsets: failed to convert prompt bad: invalid prompt'' \<and>
   enabledTools (snd (ReloadConfiguration exampleDeps exampleServer1 exampleNewConfig)) =
     [''pods_list'', ''pods_delete'', ''helm_list''] \<and>
   fst (ReloadConfiguration exampleDeps exampleServer1 examplePromptsConfig) =
     Some ''failed to reload toolsets: failed to convert prompt bad: invalid prompt'' \<and>
   enabledPrompts (snd (ReloadConfiguration exampleDeps exampleServer1 examplePromptsConfig)) =
     [''greet'', ''bad'', ''late''] \<and>
   prompts (server (snd (ReloadConfiguration exampleDeps exampleServer1 examplePromptsConfig))) =
     [''greet'' \<mapsto> \<lparr>gp_Name = ''greet'', gp_Description = []\<rparr>]"
proof -
  let ?c = "\<lparr>c_StaticConfig = exampleNewConfig, c_listOutput = None, c_toolsets = None\<rparr>
              :: unit Configuration"
  let ?d = "\<lparr>c_StaticConfig = examplePromptsConfig, c_listOutput = None, c_toolsets = None\<rparr>
              :: unit Configuration"
  have g: "GetTargets (srv_p (exampleServer0\<lparr>srv_p := exampleFailingProvider\<rparr>)) =
     Inl ''connection refused''"
    by (simp add: exampleFailingProvider_def)
  have t: "GetTargets (srv_p exampleServer1) = Inr [[]]"
    by (simp add: example1 exampleProvider_def)
  have p: "applicablePrompts exampleDeps ?c = [\<lparr>sp_Name = ''bad'', sp_Description = []\<rparr>]"
    using exampleN_prompts by (simp only: applicablePrompts_cached)
  have q: "applicablePrompts exampleDeps ?d =
      [\<lparr>sp_Name = ''greet'', sp_Description = []\<rparr>, \<lparr>sp_Name = ''bad'', sp_Description = []\<rparr>,
       \<lparr>sp_Name = ''late'', sp_Description = []\<rparr>]"
    by (simp add: applicablePrompts_def Configuration_Toolsets_def Let_def examplePromptsConfig_def
          zeroConfig_def exampleDeps_def)
  have b: "ServerPromptToGoSdkPrompt exampleDeps \<lparr>sp_Name = ''bad'', sp_Description = []\<rparr> =
      Inl ''invalid prompt''"
    "ServerPromptToGoSdkPrompt exampleDeps \<lparr>sp_Name = ''greet'', sp_Description = []\<rparr> =
      Inr \<lparr>gp_Name = ''greet'', gp_Description = []\<rparr>"
    by (simp_all add: exampleDeps_def)
  have z: "applicablePrompts exampleDeps (configuration exampleServer0) = []"
    using example0_prompts by (simp only: applicablePrompts_cached)
  have e: "enabledPrompts exampleServer1 = []" "prompts (server exampleServer1) = Map.empty"
    using reloadToolsets_prompts(2,3) [OF example0(1), of exampleDeps]
    by (simp_all add: exampleServer1_def z) (simp add: exampleServer0_def)
  have k: "A \<and> B \<and> C \<and> D \<and> (H \<longrightarrow> E \<and> F \<and> G \<and> I \<and> J) \<Longrightarrow> H \<longrightarrow> E \<and> F"
    for A B C D E F G H I J
    by blast
  have l: "A \<and> B \<and> C \<and> D \<and> (H \<longrightarrow> E \<and> F \<and> G \<and> I \<and> J) \<Longrightarrow> H \<longrightarrow> E \<and> I \<and> J"
    for A B C D E F G H I J
    by blast
  have f: "fst (ReloadConfiguration exampleDeps exampleServer1 exampleNewConfig) =
      Some ''failed to reload toolsets: failed to convert prompt bad: invalid prompt'' \<and>
    enabledTools (snd (ReloadConfiguration exampleDeps exampleServer1 exampleNewConfig)) =
      [''pods_list'', ''pods_delete'', ''helm_list'']"
    using t reload_failure_state
      [of exampleDeps "''unused''" exampleServer1 exampleNewConfig "''unused''" "[[]]",
       unfolded Let_def, THEN k]
    by (simp add: exampleN_applicable p b exampleTool_def)
  have h: "fst (ReloadConfiguration exampleDeps exampleServer1 examplePromptsConfig) =
      Some ''failed to reload toolsets: failed to convert prompt bad: invalid prompt'' \<and>
    enabledPrompts (snd (ReloadConfiguration exampleDeps exampleServer1 examplePromptsConfig)) =
      [''greet'', ''bad'', ''late''] \<and>
    prompts (server (snd (ReloadConfiguration exampleDeps exampleServer1 examplePromptsConfig))) =
      [''greet'' \<mapsto> \<lparr>gp_Name = ''greet'', gp_Description = []\<rparr>]"
    using t reload_failure_state
      [of exampleDeps "''unused''" exampleServer1 examplePromptsConfig "''unused''" "[[]]",
       unfolded Let_def, THEN l]
    by (simp add: q b e)
  have r: "ReloadConfiguration exampleDeps (exampleServer0\<lparr>srv_p := exampleFailingProvider\<rparr>)
       exampleNewConfig =
     (Some ''failed to reload toolsets: connection refused'',
      exampleServer0\<lparr>srv_p := exampleFailingProvider,
        configuration :=
          \<lparr>c_StaticConfig = exampleNewConfig, c_listOutput = None, c_toolsets = None\<rparr>\<rparr>)"
    using reload_failure_state
      [of exampleDeps "''unused''" "exampleServer0\<lparr>srv_p := exampleFailingProvider\<rparr>"
          exampleNewConfig "''connection refused''"] g
    by simp
  show ?thesis using g t f h r by blast
qed

text \<open>
  C2 as stated fails: a reload that adds the \<open>helm\<close> toolset and fails on a prompt
  returns an error, yet the new \<open>StaticConfig\<close> is in place and the tools of the new
  toolset are enabled.
\<close>

theorem reload_partial_state_counterexample:
  "fst (ReloadConfiguration exampleDeps exampleServer1 exampleNewConfig) =
     Some ''failed to reload toolsets: failed to convert prompt bad: invalid prompt'' \<and>
   c_StaticConfig (configuration exampleServer1) \<noteq>
     c_StaticConfig (configuration
       (snd (ReloadConfiguration exampleDeps exampleServer1 exampleNewConfig))) \<and>
   enabledTools exampleServer1 = [''pods_list'', ''pods_delete''] \<and>
   enabledTools (snd (ReloadConfiguration exampleDeps exampleServer1 exampleNewConfig)) =
     [''pods_list'', ''pods_delete'', ''helm_list'']"
proof -
  let ?sN = "exampleServer1\<lparr>configuration :=
      \<lparr>c_StaticConfig = exampleNewConfig, c_listOutput = None, c_toolsets = None\<rparr>\<rparr>"
  have c: "configuration ?sN =
      \<lparr>c_StaticConfig = exampleNewConfig, c_listOutput = None, c_toolsets = None\<rparr>"
    by simp
  have "fst (reloadToolsets exampleDeps ?sN) =
      Some ''failed to convert prompt bad: invalid prompt''"
    unfolding reloadToolsets_after(1) [OF exampleN(1), of exampleDeps "server exampleServer1"]
      c exampleN_prompts
    by (rule exampleN_error)
  then have a: "fst (ReloadConfiguration exampleDeps exampleServer1 exampleNewConfig) =
     Some ''failed to reload toolsets: failed to convert prompt bad: invalid prompt''"
    by (simp add: ReloadConfiguration_result)
  have "c_StaticConfig (configuration
       (snd (ReloadConfiguration exampleDeps exampleServer1 exampleNewConfig))) = exampleNewConfig"
    by (simp add: ReloadConfiguration_result reloadToolsets_keeps)
  then have b: "c_StaticConfig (configuration exampleServer1) \<noteq>
     c_StaticConfig (configuration
       (snd (ReloadConfiguration exampleDeps exampleServer1 exampleNewConfig)))"
    by (simp add: example1 exampleNewConfig_def zeroConfig_def)
  have e1: "enabledTools exampleServer1 = [''pods_list'', ''pods_delete'']"
    unfolding exampleServer1_def reloadToolsets_after(2) [OF example0(1)] example0_applicable
    by (simp add: exampleTool_def)
  have e2: "enabledTools (snd (ReloadConfiguration exampleDeps exampleServer1 exampleNewConfig)) =
     [''pods_list'', ''pods_delete'', ''helm_list'']"
    unfolding ReloadConfiguration_result reloadToolsets_after(2) [OF exampleN(1)]
      exampleN_applicable
    by (simp add: exampleTool_def)
  show ?thesis using a b e1 e2 by simp
qed

end
